theory Spec2Isabelle
  imports Main "HOL-Library.Multiset" "HOL-Library.Word"
begin

section \<open>The ownCloud WebDAV module of csync (modules/csync_owncloud.c)\<close>

text \<open>
  The module maps the file operations of the synchroniser (open, close, stat,
  opendir, readdir, unlink, ...) onto WebDAV requests issued through the neon
  library. The development below embeds the C functions one by one.

  Conventions of the embedding:
  \<^item> a C string is a \<open>string\<close> (a list of bytes without the terminating NUL); a
    \<open>char *\<close> that the code tests against NULL is a \<open>string option\<close>;
  \<^item> the singly linked list of \<open>struct resource\<close> is a HOL list, head first; a
    pointer into it (\<open>currResource\<close>) is the suffix that starts at the node;
  \<^item> the globals \<open>_connected\<close>, \<open>dav_session\<close>, \<open>_fs\<close> and \<open>errno\<close>, the local
    storage and the calls that leave the module are the fields of one record
    \<open>world\<close> that every operation takes and returns;
  \<^item> functions of neon, of libc and of \<open>c_lib\<close> are not part of the file: what they
    return is read from a record \<open>extern\<close> of functions, over which every theorem
    is universally quantified;
  \<^item> \<open>c_malloc\<close> and \<open>c_strdup\<close> are taken to succeed and \<open>c_malloc\<close> to return
    zeroed memory;
  \<^item> the static functions \<open>_stat\<close>, \<open>_open\<close>, \<open>_close\<close>, \<open>_readdir\<close>, \<open>_opendir\<close>
    and \<open>_unlink\<close> appear under the names of their slots in the method table
    with the prefix \<open>vio_\<close> (an identifier cannot start with an underscore).
\<close>

subsection \<open>Error numbers and neon result codes\<close>

text \<open>
  The values that the translators return and that are stored in \<open>errno\<close>:
  \<open>NOERR\<close> is 0, the others are the macros of errno.h, which are positive and
  pairwise distinct.
\<close>

datatype errno_t = NOERR | EPERM | ENOENT | EIO | EAGAIN | EACCES | EINVAL | ENOSPC | ENOMEM

text \<open>The result codes of neon (\<open>ne_session.h\<close>), which the code switches on as \<open>int\<close>.\<close>

definition NE_OK :: int where "NE_OK = 0"
definition NE_ERROR :: int where "NE_ERROR = 1"
definition NE_LOOKUP :: int where "NE_LOOKUP = 2"
definition NE_AUTH :: int where "NE_AUTH = 3"
definition NE_PROXYAUTH :: int where "NE_PROXYAUTH = 4"
definition NE_CONNECT :: int where "NE_CONNECT = 5"
definition NE_TIMEOUT :: int where "NE_TIMEOUT = 6"
definition NE_FAILED :: int where "NE_FAILED = 7"
definition NE_RETRY :: int where "NE_RETRY = 8"
definition NE_REDIRECT :: int where "NE_REDIRECT = 9"

subsection \<open>Data structures\<close>

datatype resource_type = resr_normal | resr_collection | resr_reference | resr_error

text \<open>\<open>struct resource\<close>; the field \<open>next\<close> is the tail of the HOL list.\<close>

record resource =
  res_uri :: string
  res_name :: "string option"
  res_type :: resource_type
  res_size :: nat
  res_modtime :: int

text \<open>\<open>struct listdir_context\<close>.\<close>

record listdir_context =
  lc_list :: "resource list"
  lc_currResource :: "resource list"
  lc_target :: "string option"
  lc_include_target :: "32 word"
  lc_result_count :: "32 word"

text \<open>
  One response element of a PROPFIND as neon hands it to the callback: the path
  of its URI and the values of the four properties of \<open>ls_props\<close>
  (\<open>ne_propset_value\<close> returns NULL for a property the server left out).
\<close>

record propfind_entry =
  pe_path :: string
  pe_getlastmodified :: "string option"
  pe_getcontentlength :: "string option"
  pe_resourcetype :: "string option"
  pe_getcontenttype :: "string option"

text \<open>
  \<open>csync_vio_file_stat_t\<close>, with the fields the module touches. The bit mask
  \<open>fields\<close> is the set of its flags, \<open>mode\<close> the set of the bits of sys/stat.h.
\<close>

datatype stat_field = FIELDS_TYPE | FIELDS_SIZE | FIELDS_MTIME | FIELDS_PERMISSIONS

datatype file_type = FILE_TYPE_UNKNOWN | FILE_TYPE_REGULAR | FILE_TYPE_DIRECTORY

datatype mode_bit = S_IFDIR | S_IFREG | S_IRUSR | S_IWUSR | S_IXUSR
  | S_IRGRP | S_IXGRP | S_IROTH | S_IXOTH

record file_stat =
  st_name :: "string option"
  st_fields :: "stat_field set"
  st_type :: file_type
  st_mtime :: int
  st_size :: nat
  st_mode :: "mode_bit set"

text \<open>\<open>struct transfer_context\<close>; \<open>req\<close> is NULL or the path of the PUT request.\<close>

record transfer_context =
  tc_req :: "string option"
  tc_fd :: int
  tc_tmpFileName :: string
  tc_bytes_written :: nat
  tc_method :: string

text \<open>
  \<open>ne_uri\<close> as \<open>dav_connect\<close> reads it. The code passes \<open>scheme\<close> and \<open>host\<close> to
  \<open>strcmp\<close> and \<open>ne_session_create\<close> without a test, so they are strings.
\<close>

record ne_uri =
  uri_scheme :: string
  uri_host :: string
  uri_port :: nat
  uri_userinfo :: "string option"

text \<open>
  A neon session as \<open>ne_session_create\<close> receives it. The protocol is the local
  buffer \<open>protocol[6]\<close> of \<open>dav_connect\<close>: \<open>None\<close> when no branch has written it.
\<close>

record ne_session =
  ses_protocol :: "string option"
  ses_host :: string
  ses_port :: nat

record dav_session_s =
  ds_ctx :: "ne_session option"
  ds_user :: "string option"
  ds_pwd :: "string option"

subsection \<open>What the module calls and does not define\<close>

text \<open>
  The functions of neon, libc and \<open>c_lib\<close> that the module calls, each as a
  function of its arguments. \<open>x_strtol\<close> and \<open>x_DAV_STRTOL\<close> return the
  converted value and the number of bytes consumed (the offset of \<open>endptr\<close>).
  \<open>x_cleanPath\<close> is \<open>_cleanPath\<close>, which the file calls without defining it; its
  callers test the result against NULL. \<open>x_ne_simple_propfind\<close> gives, for a
  request URI, the response elements that neon passes to the callback one after
  the other and the code the call returns. The remaining fields are the
  results of the requests and of the system calls on the temporary file.
\<close>

record extern =
  x_strtol :: "string \<Rightarrow> int \<times> nat"
  x_DAV_STRTOL :: "string \<Rightarrow> nat \<times> nat"
  x_ne_path_unescape :: "string \<Rightarrow> string"
  x_ne_path_compare :: "string \<Rightarrow> string \<Rightarrow> int"
  x_ne_httpdate_parse :: "string \<Rightarrow> int"
  x_c_basename :: "string \<Rightarrow> string option"
  x_c_dirname :: "string \<Rightarrow> string"
  x_cleanPath :: "string \<Rightarrow> string option"
  x_ne_uri_parse :: "string \<Rightarrow> int \<times> ne_uri"
  x_ne_uri_defaultport :: "string option \<Rightarrow> nat"
  x_ne_sock_init :: int
  x_ne_session_create :: "ne_session \<Rightarrow> bool"
  x_ne_get_error :: "ne_session option \<Rightarrow> string"
  x_ne_simple_propfind :: "string option \<Rightarrow> propfind_entry list \<times> int"
  x_ne_delete :: "string option \<Rightarrow> int"
  x_ne_request_create :: "string \<Rightarrow> bool"
  x_ne_begin_request :: "string \<Rightarrow> int"
  x_ne_request_dispatch :: "string option \<Rightarrow> int"
  x_ne_get_status_klass :: "string option \<Rightarrow> int"
  x_ne_get_scheme :: "ne_session option \<Rightarrow> string"
  x_ne_get_server_hostport :: "ne_session option \<Rightarrow> string"
  x_ne_get :: "string \<Rightarrow> int"
  x_mkstemp :: "string \<Rightarrow> int \<times> string"
  x_close :: "int \<Rightarrow> int"
  x_open_rdonly :: "string \<Rightarrow> int"
  x_fstat :: "int \<Rightarrow> int"

text \<open>
  The calls that leave the module, in the order they are made: requests to the
  server and operations on the local storage.
\<close>

datatype event =
    Ev_propfind "string option"
  | Ev_delete "string option"
  | Ev_begin_request string
  | Ev_request_dispatch "string option"
  | Ev_get string
  | Ev_mkstemp string
  | Ev_close int
  | Ev_open_rdonly string
  | Ev_unlink string
  | Ev_free_handle

text \<open>
  The state the module works on: its globals, \<open>errno\<close>, the names of the files
  in local storage, and the calls made so far (latest last).
\<close>

record world =
  w_connected :: bool
  w_dav_session :: dav_session_s
  w_fs :: file_stat
  w_errno :: errno_t
  w_files :: "string set"
  w_trace :: "event list"

definition emit :: "event \<Rightarrow> world \<Rightarrow> world" where
  "emit ev w = w\<lparr>w_trace := w_trace w @ [ev]\<rparr>"

subsection \<open>The status translators\<close>

text \<open>The \<open>switch\<close> of \<open>ne_session_error_errno\<close> on the parsed number.\<close>

definition session_status_errno :: "int \<Rightarrow> errno_t" where
  "session_status_errno err =
     (if err \<in> {200, 201, 202, 203, 204, 205, 207, 304} then NOERR
      else if err \<in> {401, 402, 407} then EPERM
      else if err \<in> {301, 303, 404, 410} then ENOENT
      else if err \<in> {408, 504} then EAGAIN
      else if err = 423 then EACCES
      else if err \<in> {400, 403, 405, 409, 411, 412, 414, 415, 424, 501} then EINVAL
      else if err \<in> {413, 507} then ENOSPC
      else if err \<in> {206, 300, 302, 305, 306, 307, 406, 416, 417, 422, 500, 502, 503, 505}
        then EIO
      else EIO)"

text \<open>
  \<open>err = strtol (...)\<close> stores a \<open>long\<close> in an \<open>int\<close>: the value is reduced modulo
  \<open>2 ^ 32\<close> into the range of a 32-bit \<open>int\<close>.
\<close>

definition int_of_long :: "int \<Rightarrow> int" where
  "int_of_long v = sint (word_of_int v :: 32 word)"

text \<open>
  \<open>ne_session_error_errno\<close>: the error text of the session is parsed as a decimal
  number; \<open>p == q\<close> holds when \<open>strtol\<close> consumed nothing.
\<close>

definition ne_session_error_errno :: "extern \<Rightarrow> ne_session option \<Rightarrow> errno_t" where
  "ne_session_error_errno X session =
     (let p = x_ne_get_error X session;
          (v, q) = x_strtol X p;
          err = int_of_long v
      in if q = 0 then EIO else session_status_errno err)"

definition ne_error_to_errno :: "int \<Rightarrow> errno_t" where
  "ne_error_to_errno ne_err =
     (if ne_err = NE_OK \<or> ne_err = NE_ERROR then NOERR
      else if ne_err = NE_AUTH \<or> ne_err = NE_PROXYAUTH then EACCES
      else if ne_err = NE_CONNECT \<or> ne_err = NE_TIMEOUT \<or> ne_err = NE_RETRY then EAGAIN
      else if ne_err = NE_FAILED then EINVAL
      else if ne_err = NE_REDIRECT then ENOENT
      else if ne_err = NE_LOOKUP then EIO
      else EIO)"

subsection \<open>Building the resource list\<close>

text \<open>
  \<open>strcmp\<close> of libc: the sign of the difference of the first pair of bytes that
  differ, read as \<open>unsigned char\<close>; a string that ends first is the smaller one
  (its terminating NUL is below every byte of a C string).
\<close>

fun strcmp :: "string \<Rightarrow> string \<Rightarrow> int" where
  "strcmp [] [] = 0"
| "strcmp [] (b # bs) = - 1"
| "strcmp (a # as) [] = 1"
| "strcmp (a # as) (b # bs) =
     (if a = b then strcmp as bs
      else if (of_char a :: nat) < of_char b then - 1 else 1)"

definition compare_resource :: "resource \<Rightarrow> resource \<Rightarrow> int" where
  "compare_resource r1 r2 =
     (if res_type r1 = resr_error then - 1
      else if res_type r2 = resr_error then 1
      else if res_type r1 = resr_collection then
        (if res_type r2 \<noteq> resr_collection then - 1
         else strcmp (res_uri r1) (res_uri r2))
      else
        (if res_type r2 \<noteq> resr_collection then strcmp (res_uri r1) (res_uri r2)
         else 1))"

text \<open>
  The loop of \<open>results\<close> that puts the new resource into the list: it walks from
  the head while \<open>compare_resource current newres\<close> is negative and links the new
  node in front of the first node where it is not (or at the end).
\<close>

fun insert_resource :: "resource \<Rightarrow> resource list \<Rightarrow> resource list" where
  "insert_resource newres [] = [newres]"
| "insert_resource newres (current # rest) =
     (if compare_resource current newres \<ge> 0 then newres # current # rest
      else current # insert_resource newres rest)"

text \<open>The resource that \<open>results\<close> fills from one response element.\<close>

definition new_resource :: "extern \<Rightarrow> propfind_entry \<Rightarrow> resource" where
  "new_resource X e =
     (let path = x_ne_path_unescape X (pe_path e);
          modtime = pe_getlastmodified e;
          clength = pe_getcontentlength e;
          resourcetype = pe_resourcetype e
      in \<lparr> res_uri = path,
           res_name = x_c_basename X path,
           res_type =
             (if clength = None \<and>
                 (case resourcetype of None \<Rightarrow> False
                  | Some rt \<Rightarrow> take 16 rt = ''<DAV:collection>'')
              then resr_collection else resr_normal),
           res_size =
             (case clength of None \<Rightarrow> 0
              | Some cl \<Rightarrow> (let (n, p) = x_DAV_STRTOL X cl in if drop p cl \<noteq> [] then 0 else n)),
           res_modtime =
             (case modtime of None \<Rightarrow> 0 | Some m \<Rightarrow> x_ne_httpdate_parse X m) \<rparr>)"

text \<open>\<open>results\<close>, the callback of the PROPFIND, called once per response element.\<close>

definition results :: "extern \<Rightarrow> listdir_context \<Rightarrow> propfind_entry \<Rightarrow> listdir_context" where
  "results X fetchCtx e =
     (case lc_target fetchCtx of
        None \<Rightarrow> fetchCtx
      | Some target \<Rightarrow>
          if x_ne_path_compare X target (pe_path e) = 0 \<and> lc_include_target fetchCtx = 0
          then fetchCtx
          else fetchCtx\<lparr> lc_list := insert_resource (new_resource X e) (lc_list fetchCtx),
                         lc_result_count := lc_result_count fetchCtx + 1 \<rparr>)"

text \<open>
  \<open>fetch_resource_list\<close>: one PROPFIND on \<open>curi\<close>; neon calls \<open>results\<close> on each
  response element in turn. The depth is always \<open>NE_DEPTH_ONE\<close> and is left out.
\<close>

definition fetch_resource_list ::
  "extern \<Rightarrow> string option \<Rightarrow> listdir_context \<Rightarrow> world
     \<Rightarrow> int \<times> listdir_context \<times> world" where
  "fetch_resource_list X curi fetchCtx w =
     (let (entries, ret) = x_ne_simple_propfind X curi;
          w1 = emit (Ev_propfind curi) w;
          ctx1 = foldl (results X) fetchCtx entries;
          ctx2 = (if ret = NE_OK then ctx1\<lparr>lc_currResource := lc_list ctx1\<rparr> else ctx1)
      in (ret, ctx2, w1))"

subsection \<open>Connecting\<close>

text \<open>
  The two branches of \<open>dav_connect\<close> that fill the buffer \<open>protocol\<close> from the
  scheme of the parsed URI; the second tests \<open>strcmp (...)\<close> itself, which is
  non-zero when the strings differ.
\<close>

definition connect_protocol :: "string \<Rightarrow> string option" where
  "connect_protocol scheme =
     (if strcmp scheme ''owncloud'' = 0 then Some ''http''
      else if strcmp scheme ''ownclouds'' \<noteq> 0 then Some ''https''
      else None)"

text \<open>The user and the password cut out of \<open>uri.userinfo\<close> at the first colon.\<close>

definition connect_userinfo :: "string option \<Rightarrow> dav_session_s \<Rightarrow> dav_session_s" where
  "connect_userinfo userinfo ses =
     (case userinfo of
        None \<Rightarrow> ses
      | Some ui \<Rightarrow>
          if CHR '':'' \<in> set ui
          then ses\<lparr> ds_user := Some (takeWhile (\<lambda>c. c \<noteq> CHR '':'') ui),
                    ds_pwd := Some (drop 1 (dropWhile (\<lambda>c. c \<noteq> CHR '':'') ui)) \<rparr>
          else ses)"

definition dav_connect :: "extern \<Rightarrow> string \<Rightarrow> world \<Rightarrow> int \<times> world" where
  "dav_connect X base_url w =
     (if w_connected w then (0, w)
      else
        let (rc, uri) = x_ne_uri_parse X base_url
        in if rc < 0 then (rc, w)
           else
             let protocol = connect_protocol (uri_scheme uri);
                 ses = connect_userinfo (uri_userinfo uri) (w_dav_session w);
                 port = (if uri_port uri = 0 then x_ne_uri_defaultport X protocol
                         else uri_port uri);
                 w1 = w\<lparr>w_dav_session := ses\<rparr>
             in if x_ne_sock_init X < 0 then (- 1, w1)
                else
                  let s = \<lparr> ses_protocol = protocol, ses_host = uri_host uri,
                            ses_port = port \<rparr>
                  in if \<not> x_ne_session_create X s
                     then (- 1, w1\<lparr>w_dav_session := ses\<lparr>ds_ctx := None\<rparr>\<rparr>)
                     else (0, w1\<lparr> w_dav_session := ses\<lparr>ds_ctx := Some s\<rparr>,
                                  w_connected := True \<rparr>))"

subsection \<open>stat, readdir and opendir\<close>

definition stat_perms :: "file_type \<Rightarrow> mode_bit set" where
  "stat_perms type =
     (if type = FILE_TYPE_DIRECTORY
      then {S_IFDIR, S_IRUSR, S_IWUSR, S_IXUSR, S_IRGRP, S_IXGRP, S_IROTH, S_IXOTH}
      else {S_IFREG, S_IRUSR, S_IWUSR, S_IRGRP, S_IROTH})"

text \<open>\<open>resourceToFileStat\<close>: NULL for the NULL pointer, else a fresh, zeroed struct filled in.\<close>

definition resourceToFileStat :: "resource list \<Rightarrow> file_stat option" where
  "resourceToFileStat res =
     (case res of
        [] \<Rightarrow> None
      | r # _ \<Rightarrow>
          Some \<lparr> st_name = res_name r,
                 st_fields =
                   (if res_type r = resr_normal \<or> res_type r = resr_collection
                    then {FIELDS_TYPE} else {}) \<union> {FIELDS_MTIME} \<union> {FIELDS_SIZE},
                 st_type =
                   (if res_type r = resr_normal then FILE_TYPE_REGULAR
                    else if res_type r = resr_collection then FILE_TYPE_DIRECTORY
                    else FILE_TYPE_UNKNOWN),
                 st_mtime = res_modtime r,
                 st_size = res_size r,
                 st_mode = {} \<rparr>)"

text \<open>
  The file defines \<open>_stat\<close> twice. The first definition precedes \<open>_open\<close>, which
  calls it; the second follows \<open>_stat_perms\<close> and precedes the method table.
  They share the test of the base name and the branch that answers from the
  static \<open>_fs\<close>; they differ in the URI of the PROPFIND and in what happens when
  it fails. \<open>vio_stat\<close> is the first, \<open>vio_stat_2\<close> the second. The second
  component of the result is the caller's buffer, \<open>None\<close> once
  \<open>csync_vio_file_stat_destroy\<close> has released it.
\<close>

definition vio_stat ::
  "extern \<Rightarrow> string \<Rightarrow> file_stat \<Rightarrow> world \<Rightarrow> int \<times> file_stat option \<times> world" where
  "vio_stat X uri buf w =
     (case x_c_basename X uri of
        None \<Rightarrow> (- 1, None, w\<lparr>w_errno := ENOMEM\<rparr>)
      | Some nm \<Rightarrow>
          let buf1 = buf\<lparr>st_name := Some nm\<rparr>;
              fs = w_fs w
          in if (case st_name fs of None \<Rightarrow> False | Some fsname \<Rightarrow> strcmp nm fsname = 0)
             then (0, Some (buf1\<lparr> st_fields := st_fields fs, st_type := st_type fs,
                                  st_mtime := st_mtime fs, st_size := st_size fs,
                                  st_mode := stat_perms (st_type fs) \<rparr>), w)
             else
               let curi = x_cleanPath X uri;
                   fetchCtx = \<lparr> lc_list = [], lc_currResource = [], lc_target = curi,
                                 lc_include_target = 1, lc_result_count = 0 \<rparr>;
                   (rc, ctx, w1) = fetch_resource_list X curi fetchCtx w
               in if rc \<noteq> NE_OK
                  then (- 1, Some buf1,
                        w1\<lparr>w_errno := ne_session_error_errno X (ds_ctx (w_dav_session w1))\<rparr>)
                  else
                    (case resourceToFileStat (lc_list ctx) of
                       None \<Rightarrow> (0, Some buf1, w1)
                     | Some lfs \<Rightarrow>
                         (0, Some (buf1\<lparr> st_fields := st_fields lfs, st_type := st_type lfs,
                                         st_mtime := st_mtime lfs, st_size := st_size lfs,
                                         st_mode := stat_perms (st_type lfs) \<rparr>), w1)))"

definition vio_stat_2 ::
  "extern \<Rightarrow> string \<Rightarrow> file_stat \<Rightarrow> world \<Rightarrow> int \<times> file_stat option \<times> world" where
  "vio_stat_2 X uri buf w =
     (case x_c_basename X uri of
        None \<Rightarrow> (- 1, None, w\<lparr>w_errno := ENOMEM\<rparr>)
      | Some nm \<Rightarrow>
          let buf1 = buf\<lparr>st_name := Some nm\<rparr>;
              fs = w_fs w
          in if (case st_name fs of None \<Rightarrow> False | Some fsname \<Rightarrow> strcmp nm fsname = 0)
             then (0, Some (buf1\<lparr> st_fields := st_fields fs, st_type := st_type fs,
                                  st_mtime := st_mtime fs, st_size := st_size fs,
                                  st_mode := stat_perms (st_type fs) \<rparr>), w)
             else
               let fetchCtx = \<lparr> lc_list = [], lc_currResource = [],
                                 lc_target = x_cleanPath X uri, lc_include_target = 1,
                                 lc_result_count = 0 \<rparr>;
                   (rc, ctx, w1) = fetch_resource_list X (Some uri) fetchCtx w
               in if rc \<noteq> NE_OK then (- 1, None, w1\<lparr>w_errno := ne_error_to_errno rc\<rparr>)
                  else
                    (case resourceToFileStat (lc_list ctx) of
                       None \<Rightarrow> (0, Some buf1, w1)
                     | Some lfs \<Rightarrow>
                         (0, Some (buf1\<lparr> st_fields := st_fields lfs, st_type := st_type lfs,
                                         st_mtime := st_mtime lfs, st_size := st_size lfs,
                                         st_mode := stat_perms (st_type lfs) \<rparr>), w1)))"

text \<open>
  \<open>_readdir\<close>: NULL at the end of the list; else the entry under the cursor is
  converted, the cursor moves on, and the static \<open>_fs\<close> is filled for \<open>_stat\<close>.
\<close>

definition vio_readdir ::
  "listdir_context \<Rightarrow> world \<Rightarrow> file_stat option \<times> listdir_context \<times> world" where
  "vio_readdir fetchCtx w =
     (case resourceToFileStat (lc_currResource fetchCtx) of
        None \<Rightarrow> (None, fetchCtx, w)
      | Some lfs \<Rightarrow>
          (Some lfs,
           fetchCtx\<lparr>lc_currResource := tl (lc_currResource fetchCtx)\<rparr>,
           w\<lparr>w_fs := (w_fs w)\<lparr> st_name := st_name lfs, st_mtime := st_mtime lfs,
                               st_fields := st_fields lfs, st_type := st_type lfs,
                               st_size := st_size lfs \<rparr>\<rparr>))"

definition vio_opendir ::
  "extern \<Rightarrow> string \<Rightarrow> world \<Rightarrow> listdir_context option \<times> world" where
  "vio_opendir X uri w =
     (let curi = x_cleanPath X uri;
          w1 = snd (dav_connect X uri w);
          fetchCtx = \<lparr> lc_list = [], lc_currResource = [], lc_target = curi,
                       lc_include_target = 0, lc_result_count = 0 \<rparr>;
          (rc, ctx, w2) = fetch_resource_list X curi fetchCtx w1
      in if rc \<noteq> NE_OK
         then (None, w2\<lparr>w_errno := ne_session_error_errno X (ds_ctx (w_dav_session w2))\<rparr>)
         else (Some (ctx\<lparr>lc_currResource := lc_list ctx\<rparr>), w2))"

subsection \<open>open and close\<close>

text \<open>The flags of \<open>open\<close> that \<open>_open\<close> tests; the bit mask is the set of its flags.\<close>

datatype open_flag = O_WRONLY | O_RDWR | O_CREAT | O_TRUNC

text \<open>
  The size of the buffer \<open>getUrl\<close> (\<open>PATH_MAX\<close> of \<open>limits.h\<close>, 4096 on Linux):
  \<open>snprintf\<close> cuts the URL of the GET to one byte less.
\<close>

definition PATH_MAX :: nat where "PATH_MAX = 4096"

text \<open>
  What \<open>_open\<close> passes to \<open>_stat\<close> as buffer: its local \<open>statBuf\<close>, whose contents
  \<open>_open\<close> never reads.
\<close>

definition statBuf :: file_stat where
  "statBuf = \<lparr> st_name = None, st_fields = {}, st_type = FILE_TYPE_UNKNOWN,
               st_mtime = 0, st_size = 0, st_mode = {} \<rparr>"

text \<open>
  \<open>_open\<close>. When \<open>_cleanPath\<close> returns NULL, \<open>rc\<close> is \<open>NE_ERROR\<close> from the start,
  every block guarded by \<open>rc == NE_OK\<close> is skipped, the fresh context is freed
  and NULL is returned (the value of \<open>ne_error_to_errno (rc)\<close> is dropped, here
  and at the end). Otherwise the blocks run in the order of the source; the
  triple carried through them is \<open>rc\<close>, the context and the world.
\<close>

definition vio_open ::
  "extern \<Rightarrow> string \<Rightarrow> open_flag set \<Rightarrow> world \<Rightarrow> transfer_context option \<times> world" where
  "vio_open X durl flags w =
     (case x_cleanPath X durl of
        None \<Rightarrow> (None, w)
      | Some uri \<Rightarrow>
          let w1 = snd (dav_connect X durl w);
              put = (O_WRONLY \<in> flags \<or> O_RDWR \<in> flags \<or> O_CREAT \<in> flags);
              dir = x_c_dirname X durl;
              (st, _, wst) = vio_stat X dir statBuf w1
          in if put \<and> st \<noteq> 0 then (None, wst\<lparr>w_errno := ENOENT\<rparr>)
             else
               let w2 = (if put then wst else w1);
                   (fd, tmpFileName) = x_mkstemp X ''/tmp/csync.XXXXXX'';
                   writeCtx = \<lparr> tc_req = None, tc_fd = fd, tc_tmpFileName = tmpFileName,
                                tc_bytes_written = 0, tc_method = [] \<rparr>;
                   w3 = emit (Ev_mkstemp tmpFileName)
                          (if fd = - 1 then w2
                           else w2\<lparr>w_files := insert tmpFileName (w_files w2)\<rparr>);
                   rc = (if fd = - 1 then NE_ERROR else NE_OK);
                   (rc, writeCtx, w4) =
                     (if rc = NE_OK \<and> put then
                        (if x_ne_request_create X uri
                         then (x_ne_begin_request X uri,
                               writeCtx\<lparr>tc_req := Some uri, tc_method := ''PUT''\<rparr>,
                               emit (Ev_begin_request uri) w3)
                         else (rc, writeCtx\<lparr>tc_method := ''PUT''\<rparr>, w3))
                      else (rc, writeCtx, w3));
                   (rc, writeCtx, w5) =
                     (if rc = NE_OK \<and> \<not> put then
                        (let getUrl = take (PATH_MAX - 1)
                               (x_ne_get_scheme X (ds_ctx (w_dav_session w4)) @ ''://'' @
                                x_ne_get_server_hostport X (ds_ctx (w_dav_session w4)) @ uri);
                             rc = x_ne_get X getUrl;
                             rc = (if x_close X (tc_fd writeCtx) = - 1 then NE_ERROR else rc)
                         in (rc, writeCtx\<lparr>tc_req := None, tc_method := ''GET'', tc_fd := - 1\<rparr>,
                             emit (Ev_close (tc_fd writeCtx)) (emit (Ev_get getUrl) w4)))
                      else (rc, writeCtx, w4))
               in if rc \<noteq> NE_OK then (None, w5) else (Some writeCtx, w5))"

text \<open>
  The call \<open>_stat (dir, ...)\<close> that \<open>_open\<close> makes for a handle to write: on the
  directory name of the URL, in the world \<open>dav_connect\<close> has left.
\<close>

definition open_parent_stat ::
  "extern \<Rightarrow> string \<Rightarrow> world \<Rightarrow> int \<times> file_stat option \<times> world" where
  "open_parent_stat X durl w =
     vio_stat X (x_c_dirname X durl) statBuf (snd (dav_connect X durl w))"

text \<open>
  \<open>_close\<close>. For the NULL handle the code sets \<open>ret = -1\<close> and then reads
  \<open>writeCtx->fd\<close> through it: there is no return (\<open>None\<close>). \<open>unlink\<close> takes the
  name out of the local storage.
\<close>

definition vio_close ::
  "extern \<Rightarrow> transfer_context option \<Rightarrow> world \<Rightarrow> (int \<times> world) option" where
  "vio_close X fhandle w =
     (case fhandle of
        None \<Rightarrow> None
      | Some writeCtx \<Rightarrow>
          let (ret, w1) =
                (if strcmp (tc_method writeCtx) ''PUT'' = 0 then
                   (if tc_fd writeCtx > - 1 then
                      (let ret = (if x_close X (tc_fd writeCtx) < 0 then - 1 else 0);
                           wa = emit (Ev_close (tc_fd writeCtx)) w;
                           fd = x_open_rdonly X (tc_tmpFileName writeCtx);
                           wb = emit (Ev_open_rdonly (tc_tmpFileName writeCtx)) wa
                       in if fd < 0 then (- 1, wb)
                          else
                            let ret = (if x_fstat X fd < 0 then - 1 else ret);
                                rc = x_ne_request_dispatch X (tc_req writeCtx);
                                wc = emit (Ev_close fd)
                                       (emit (Ev_request_dispatch (tc_req writeCtx)) wb)
                            in if rc = NE_OK then
                                 (if x_ne_get_status_klass X (tc_req writeCtx) \<noteq> 2
                                  then (ret, wc)
                                  else (ret, wc))
                               else (- 1, wc))
                    else (0, w))
                 else
                   (0, if tc_fd writeCtx > - 1 then emit (Ev_close (tc_fd writeCtx)) w else w));
              w2 = emit (Ev_unlink (tc_tmpFileName writeCtx))
                     (w1\<lparr>w_files := w_files w1 - {tc_tmpFileName writeCtx}\<rparr>);
              w3 = emit Ev_free_handle w2
          in Some (ret, w3))"

subsection \<open>unlink\<close>

definition vio_unlink :: "extern \<Rightarrow> string \<Rightarrow> world \<Rightarrow> int \<times> world" where
  "vio_unlink X uri w =
     (let path = x_cleanPath X uri;
          (rc, w1) = (if path = None then (NE_ERROR, w\<lparr>w_errno := EINVAL\<rparr>) else (NE_OK, w));
          (rc, w2) =
            (if rc = NE_OK then
               (let (rc, wc) = dav_connect X uri w1
                in (rc, if rc < 0 then wc\<lparr>w_errno := EINVAL\<rparr> else wc))
             else (rc, w1));
          (rc, w3) =
            (if rc = NE_OK then
               (let rc = x_ne_delete X path;
                    wd = emit (Ev_delete path) w2
                in (rc, if rc \<noteq> NE_OK then wd\<lparr>w_errno := ne_error_to_errno rc\<rparr> else wd))
             else (rc, w2))
      in (0, w3))"

subsection \<open>The order of the resource list\<close>

text \<open>
  \<open>tier_ordered a b\<close>: \<open>a\<close> may stand in front of \<open>b\<close> in a list that has the
  errors first, then the collections, then the normal resources, the last two
  groups in non-decreasing byte order of their URIs.
\<close>

definition tier_ordered :: "resource \<Rightarrow> resource \<Rightarrow> bool" where
  "tier_ordered a b =
     (\<not> (res_type a = resr_collection \<and> res_type b = resr_error) \<and>
      \<not> (res_type a = resr_normal \<and> res_type b = resr_collection) \<and>
      \<not> (res_type a = resr_normal \<and> res_type b = resr_error) \<and>
      (res_type a = resr_collection \<and> res_type b = resr_collection
         \<longrightarrow> strcmp (res_uri a) (res_uri b) \<le> 0) \<and>
      (res_type a = resr_normal \<and> res_type b = resr_normal
         \<longrightarrow> strcmp (res_uri a) (res_uri b) \<le> 0))"

text \<open>
  The order the insertion maintains: the tier of a resource (a reference sorts
  with the normal resources) and, from the second tier on, the URI.
\<close>

definition tier :: "resource \<Rightarrow> nat" where
  "tier r = (case res_type r of resr_error \<Rightarrow> 0 | resr_collection \<Rightarrow> 1 | _ \<Rightarrow> 2)"

definition list_order :: "resource \<Rightarrow> resource \<Rightarrow> bool" where
  "list_order a b =
     (tier a < tier b \<or>
      (tier a = tier b \<and> (tier a = 0 \<or> strcmp (res_uri a) (res_uri b) \<le> 0)))"

subsection \<open>A concrete environment\<close>

text \<open>
  A server that holds the collection \<open>/dav/\<close> with the collection \<open>b\<close> and the
  files \<open>a.txt\<close> and \<open>z.txt\<close>, and answers every PROPFIND with that listing,
  the target first; every request and every system call succeeds.
\<close>

definition dec_value :: "string \<Rightarrow> nat" where
  "dec_value ds = foldl (\<lambda>n c. 10 * n + (of_char c - 48)) 0 ds"

definition is_digit :: "char \<Rightarrow> bool" where
  "is_digit c = (48 \<le> (of_char c :: nat) \<and> (of_char c :: nat) \<le> 57)"

definition last_segment :: "string \<Rightarrow> string" where
  "last_segment p =
     rev (takeWhile (\<lambda>c. c \<noteq> CHR ''/'') (dropWhile (\<lambda>c. c = CHR ''/'') (rev p)))"

definition parent_path :: "string \<Rightarrow> string" where
  "parent_path p =
     rev (dropWhile (\<lambda>c. c \<noteq> CHR ''/'') (dropWhile (\<lambda>c. c = CHR ''/'') (rev p)))"

definition url_path :: "string \<Rightarrow> string" where
  "url_path u =
     dropWhile (\<lambda>c. c \<noteq> CHR ''/'') (drop 2 (dropWhile (\<lambda>c. c \<noteq> CHR ''/'') u))"

definition example_listing :: "propfind_entry list" where
  "example_listing =
     [ \<lparr> pe_path = ''/dav/'', pe_getlastmodified = None, pe_getcontentlength = None,
         pe_resourcetype = Some ''<DAV:collection></DAV:collection>'',
         pe_getcontenttype = None \<rparr>,
       \<lparr> pe_path = ''/dav/z.txt'', pe_getlastmodified = None,
         pe_getcontentlength = Some ''5'', pe_resourcetype = None,
         pe_getcontenttype = Some ''text/plain'' \<rparr>,
       \<lparr> pe_path = ''/dav/b/'', pe_getlastmodified = None, pe_getcontentlength = None,
         pe_resourcetype = Some ''<DAV:collection></DAV:collection>'',
         pe_getcontenttype = None \<rparr>,
       \<lparr> pe_path = ''/dav/a.txt'', pe_getlastmodified = None,
         pe_getcontentlength = Some ''10'', pe_resourcetype = None,
         pe_getcontenttype = Some ''text/plain'' \<rparr> ]"

definition example_extern :: extern where
  "example_extern =
     \<lparr> x_strtol = (\<lambda>s. (int (dec_value (takeWhile is_digit s)), length (takeWhile is_digit s))),
       x_DAV_STRTOL = (\<lambda>s. (dec_value (takeWhile is_digit s), length (takeWhile is_digit s))),
       x_ne_path_unescape = (\<lambda>p. p),
       x_ne_path_compare = strcmp,
       x_ne_httpdate_parse = (\<lambda>d. 0),
       x_c_basename = (\<lambda>p. Some (last_segment p)),
       x_c_dirname = parent_path,
       x_cleanPath = (\<lambda>u. Some (url_path u)),
       x_ne_uri_parse =
         (\<lambda>u. (0, \<lparr> uri_scheme = takeWhile (\<lambda>c. c \<noteq> CHR '':'') u,
                     uri_host = ''example.org'', uri_port = 0, uri_userinfo = None \<rparr>)),
       x_ne_uri_defaultport = (\<lambda>p. if p = Some ''https'' then 443 else 80),
       x_ne_sock_init = 0,
       x_ne_session_create = (\<lambda>s. True),
       x_ne_get_error = (\<lambda>s. ''404 Not Found''),
       x_ne_simple_propfind = (\<lambda>u. (example_listing, 0)),
       x_ne_delete = (\<lambda>p. 0),
       x_ne_request_create = (\<lambda>u. True),
       x_ne_begin_request = (\<lambda>u. 0),
       x_ne_request_dispatch = (\<lambda>r. 0),
       x_ne_get_status_klass = (\<lambda>r. 2),
       x_ne_get_scheme =
         (\<lambda>s. case s of None \<Rightarrow> []
               | Some ses \<Rightarrow> (case ses_protocol ses of None \<Rightarrow> [] | Some pr \<Rightarrow> pr)),
       x_ne_get_server_hostport = (\<lambda>s. case s of None \<Rightarrow> [] | Some ses \<Rightarrow> ses_host ses),
       x_ne_get = (\<lambda>u. 0),
       x_mkstemp = (\<lambda>t. (3, ''/tmp/csync.a1b2c3'')),
       x_close = (\<lambda>fd. 0),
       x_open_rdonly = (\<lambda>n. 4),
       x_fstat = (\<lambda>fd. 0) \<rparr>"

definition example_world :: world where
  "example_world =
     \<lparr> w_connected = False,
       w_dav_session = \<lparr> ds_ctx = None, ds_user = None, ds_pwd = None \<rparr>,
       w_fs = \<lparr> st_name = None, st_fields = {}, st_type = FILE_TYPE_UNKNOWN,
                st_mtime = 0, st_size = 0, st_mode = {} \<rparr>,
       w_errno = NOERR,
       w_files = {},
       w_trace = [] \<rparr>"

text \<open>A handle as \<open>_open\<close> returns it for writing, and the world that holds its file.\<close>

definition example_put_handle :: transfer_context where
  "example_put_handle =
     \<lparr> tc_req = Some ''/dav/a.txt'', tc_fd = 3, tc_tmpFileName = ''/tmp/csync.a1b2c3'',
       tc_bytes_written = 10, tc_method = ''PUT'' \<rparr>"

definition example_put_world :: world where
  "example_put_world = example_world\<lparr>w_files := {''/tmp/csync.a1b2c3''}\<rparr>"

text \<open>The same server answering the dispatched PUT with 403 Forbidden (class 4).\<close>

definition forbidden_extern :: extern where
  "forbidden_extern = example_extern\<lparr>x_ne_get_status_klass := (\<lambda>r. 4)\<rparr>"

text \<open>
  An environment in which \<open>_cleanPath\<close> rejects the URI and the PROPFIND on the
  parent fails.
\<close>

definition unparsable_extern :: extern where
  "unparsable_extern =
     example_extern\<lparr> x_cleanPath := (\<lambda>u. None),
                      x_ne_simple_propfind := (\<lambda>u. ([], 1)) \<rparr>"

text \<open>
  The context \<open>_opendir\<close> sets up for a listing of \<open>/dav/\<close>, the URL of that
  collection, and the world after \<open>_opendir\<close> and one \<open>_readdir\<close> on it.
\<close>

definition example_context :: listdir_context where
  "example_context =
     \<lparr> lc_list = [], lc_currResource = [], lc_target = Some ''/dav/'',
       lc_include_target = 0, lc_result_count = 0 \<rparr>"

definition example_url :: string where
  "example_url = ''owncloud://example.org/dav/''"


text \<open>The same server failing every PROPFIND, a file to create, and the flags of \<open>_creat\<close>.\<close>

definition missing_parent_extern :: extern where
  "missing_parent_extern = example_extern\<lparr>x_ne_simple_propfind := (\<lambda>u. ([], 1))\<rparr>"

definition no_basename_extern :: extern where
  "no_basename_extern = example_extern\<lparr>x_c_basename := (\<lambda>p. None)\<rparr>"

definition new_file_url :: string where
  "new_file_url = ''owncloud://example.org/dav/new.txt''"

definition write_flags :: "open_flag set" where
  "write_flags = {O_CREAT, O_WRONLY, O_TRUNC}"

text \<open>
  The world in which the static \<open>_fs\<close> holds the name \<open>dav\<close>, as a \<open>_readdir\<close> on the
  parent of a collection of that name leaves it.
\<close>

definition stale_cache_world :: world where
  "stale_cache_world = example_world\<lparr>w_fs := (w_fs example_world)\<lparr>st_name := Some ''dav''\<rparr>\<rparr>"

text \<open>
  The listing in which the server delivers the element of the target twice, and
  the context \<open>_stat\<close> sets up (\<open>include_target = 1\<close>).
\<close>

definition twice_listing :: "propfind_entry list" where
  "twice_listing = hd example_listing # example_listing"

definition twice_extern :: extern where
  "twice_extern = example_extern\<lparr>x_ne_simple_propfind := (\<lambda>u. (twice_listing, 0))\<rparr>"

definition included_context :: listdir_context where
  "included_context = example_context\<lparr>lc_include_target := 1\<rparr>"

text \<open>
  Environments in which \<open>ne_sock_init\<close> fails, in which the DELETE fails with
  \<open>NE_ERROR\<close>, and in which it fails with \<open>NE_CONNECT\<close>.
\<close>

definition no_socket_extern :: extern where
  "no_socket_extern = example_extern\<lparr>x_ne_sock_init := - 1\<rparr>"

definition delete_error_extern :: extern where
  "delete_error_extern = example_extern\<lparr>x_ne_delete := (\<lambda>p. 1)\<rparr>"

definition delete_connect_extern :: extern where
  "delete_connect_extern = example_extern\<lparr>x_ne_delete := (\<lambda>p. 5)\<rparr>"

section \<open>Properties\<close>

lemmas NE_defs = NE_OK_def NE_ERROR_def NE_LOOKUP_def NE_AUTH_def NE_PROXYAUTH_def
  NE_CONNECT_def NE_TIMEOUT_def NE_FAILED_def NE_RETRY_def NE_REDIRECT_def

subsection \<open>The status translators\<close>

text \<open>
  C9. The translation of a neon result code: \<open>NE_OK\<close> and \<open>NE_ERROR\<close> give 0;
  \<open>NE_AUTH\<close> and \<open>NE_PROXYAUTH\<close> give \<open>EACCES\<close>; \<open>NE_CONNECT\<close>, \<open>NE_TIMEOUT\<close> and
  \<open>NE_RETRY\<close> give \<open>EAGAIN\<close>; \<open>NE_FAILED\<close> gives \<open>EINVAL\<close>; \<open>NE_REDIRECT\<close> gives
  \<open>ENOENT\<close>; \<open>NE_LOOKUP\<close> and every integer that is none of the ten codes give
  \<open>EIO\<close>. The C function reads and writes nothing but its argument, so it is a
  function of the code alone: equal codes give equal results.
\<close>

theorem ne_error_to_errno_table:
  "ne_error_to_errno NE_OK = NOERR \<and> ne_error_to_errno NE_ERROR = NOERR \<and>
   ne_error_to_errno NE_AUTH = EACCES \<and> ne_error_to_errno NE_PROXYAUTH = EACCES \<and>
   ne_error_to_errno NE_CONNECT = EAGAIN \<and> ne_error_to_errno NE_TIMEOUT = EAGAIN \<and>
   ne_error_to_errno NE_RETRY = EAGAIN \<and>
   ne_error_to_errno NE_FAILED = EINVAL \<and>
   ne_error_to_errno NE_REDIRECT = ENOENT \<and>
   ne_error_to_errno NE_LOOKUP = EIO \<and>
   (\<forall>c. c \<notin> {NE_OK, NE_ERROR, NE_AUTH, NE_PROXYAUTH, NE_CONNECT, NE_TIMEOUT, NE_RETRY,
              NE_FAILED, NE_REDIRECT, NE_LOOKUP} \<longrightarrow> ne_error_to_errno c = EIO) \<and>
   (\<forall>c d. c = d \<longrightarrow> ne_error_to_errno c = ne_error_to_errno d)"
  by (simp add: ne_error_to_errno_def NE_defs)

theorem ne_error_to_errno_table_witness:
  "(42 :: int) \<notin> {NE_OK, NE_ERROR, NE_AUTH, NE_PROXYAUTH, NE_CONNECT, NE_TIMEOUT, NE_RETRY,
              NE_FAILED, NE_REDIRECT, NE_LOOKUP} \<and> ne_error_to_errno 42 = EIO \<and>
   ne_error_to_errno (40 + 2) = ne_error_to_errno 42"
proof -
  have out: "(42 :: int) \<notin> {NE_OK, NE_ERROR, NE_AUTH, NE_PROXYAUTH, NE_CONNECT, NE_TIMEOUT,
      NE_RETRY, NE_FAILED, NE_REDIRECT, NE_LOOKUP}"
    by (simp add: NE_defs)
  have same: "(40 + 2 :: int) = 42" by simp
  from ne_error_to_errno_table out have "ne_error_to_errno 42 = EIO" by blast
  moreover from ne_error_to_errno_table same
  have "ne_error_to_errno (40 + 2) = ne_error_to_errno 42" by blast
  ultimately show ?thesis using out by blast
qed

text \<open>
  C2, as the code has it. The status parsed from the error text of the session
  gives 0 exactly for 200 to 205, 207 and 304; \<open>EPERM\<close> exactly for 401, 402
  and 407; \<open>ENOENT\<close> exactly for 301, 303, 404 and 410; \<open>EAGAIN\<close> exactly for 408
  and 504; \<open>EACCES\<close> exactly for 423; \<open>EINVAL\<close> exactly for 400, 403, 405, 409,
  411, 412, 414, 415, 424 and 501; \<open>ENOSPC\<close> exactly for 413 and 507; and \<open>EIO\<close>
  for every other integer, 206 and the 2xx codes above 207 among them.
\<close>

theorem session_status_errno_table:
  "(session_status_errno c = NOERR \<longleftrightarrow> c \<in> {200, 201, 202, 203, 204, 205, 207, 304}) \<and>
   (session_status_errno c = EPERM \<longleftrightarrow> c \<in> {401, 402, 407}) \<and>
   (session_status_errno c = ENOENT \<longleftrightarrow> c \<in> {301, 303, 404, 410}) \<and>
   (session_status_errno c = EAGAIN \<longleftrightarrow> c \<in> {408, 504}) \<and>
   (session_status_errno c = EACCES \<longleftrightarrow> c = 423) \<and>
   (session_status_errno c = EINVAL \<longleftrightarrow>
      c \<in> {400, 403, 405, 409, 411, 412, 414, 415, 424, 501}) \<and>
   (session_status_errno c = ENOSPC \<longleftrightarrow> c \<in> {413, 507}) \<and>
   (session_status_errno c = EIO \<longleftrightarrow>
      c \<notin> {200, 201, 202, 203, 204, 205, 207, 304, 401, 402, 407, 301, 303, 404, 410,
           408, 504, 423, 400, 403, 405, 409, 411, 412, 414, 415, 424, 501, 413, 507})"
  unfolding session_status_errno_def by (simp split: if_splits)

theorem session_status_errno_table_witness:
  "session_status_errno 404 = ENOENT \<and> session_status_errno 299 = EIO"
proof -
  have "(404 :: int) \<in> {301, 303, 404, 410}" by simp
  with session_status_errno_table [of 404] have a: "session_status_errno 404 = ENOENT"
    by blast
  have "(299 :: int) \<notin> {200, 201, 202, 203, 204, 205, 207, 304, 401, 402, 407, 301, 303,
      404, 410, 408, 504, 423, 400, 403, 405, 409, 411, 412, 414, 415, 424, 501, 413, 507}"
    by simp
  with session_status_errno_table [of 299] have "session_status_errno 299 = EIO"
    by blast
  with a show ?thesis by simp
qed

text \<open>
  The claim as the specification words it (every 2xx code gives success) fails
  at 206, Partial Content, which the \<open>switch\<close> lists among the \<open>EIO\<close> cases.
\<close>

theorem session_status_206_counterexample:
  "(200 :: int) \<le> 206 \<and> (206 :: int) < 300 \<and> session_status_errno 206 = EIO \<and>
   session_status_errno 206 \<noteq> NOERR"
  by (simp add: session_status_errno_def)

text \<open>
  The whole of \<open>ne_session_error_errno\<close>: \<open>EIO\<close> when the error text does not
  start with a number, else the table above.
\<close>

lemma ne_session_error_errno_eq:
  "ne_session_error_errno X s =
     (if snd (x_strtol X (x_ne_get_error X s)) = 0 then EIO
      else session_status_errno (int_of_long (fst (x_strtol X (x_ne_get_error X s)))))"
  by (simp add: ne_session_error_errno_def Let_def split: prod.splits)

text \<open>A number beyond the range of \<open>int\<close> is translated after the wrap: 4294967500 as 204.\<close>

lemma int_of_long_wraps:
  "int_of_long 4294967500 = 204 \<and> session_status_errno (int_of_long 4294967500) = NOERR \<and>
   int_of_long 404 = 404"
  by (simp add: int_of_long_def session_status_errno_def)

subsection \<open>The byte order of strings\<close>

text \<open>
  \<open>strcmp\<close> is 0 exactly on equal strings, changes sign when its arguments are
  swapped, is transitive, and is negative exactly when the first string is
  below the second in the lexicographic order of the byte values.
\<close>

lemma strcmp_eq_0_iff: "strcmp a b = 0 \<longleftrightarrow> a = b"
  by (induction a b rule: strcmp.induct) auto

lemma strcmp_flip: "strcmp b a = - strcmp a b"
  by (induction a b rule: strcmp.induct) (auto simp: of_char_eq_iff)

lemma strcmp_range: "strcmp a b = - 1 \<or> strcmp a b = 0 \<or> strcmp a b = 1"
  by (induction a b rule: strcmp.induct) auto

lemma strcmp_trans: "strcmp a b \<le> 0 \<Longrightarrow> strcmp b c \<le> 0 \<Longrightarrow> strcmp a c \<le> 0"
proof (induction a b arbitrary: c rule: strcmp.induct)
  case 1
  then show ?case by simp
next
  case (2 b bs)
  then show ?case by (cases c) auto
next
  case (3 a as)
  then show ?case by simp
next
  case (4 a as b bs)
  show ?case
  proof (cases c)
    case Nil
    with 4 show ?thesis by simp
  next
    case (Cons x xs)
    with 4 show ?thesis
      by (auto split: if_splits simp: of_char_eq_iff)
  qed
qed

lemma strcmp_lexord:
  "strcmp a b < 0 \<longleftrightarrow>
     (map (of_char :: char \<Rightarrow> nat) a, map of_char b) \<in> lexord {(x, y). x < y}"
  by (induction a b rule: strcmp.induct) (auto simp: of_char_eq_iff)

subsection \<open>The order of the resource list\<close>

text \<open>
  The insertion keeps a list sorted by \<open>list_order\<close>, and a list sorted by
  \<open>list_order\<close> has the three tiers in order.
\<close>

lemma list_order_trans: "list_order a b \<Longrightarrow> list_order b c \<Longrightarrow> list_order a c"
  unfolding list_order_def using strcmp_trans by (metis less_trans)

lemma compare_neg_order: "compare_resource cur new < 0 \<Longrightarrow> list_order cur new"
  by (cases "res_type cur"; cases "res_type new")
     (auto simp: compare_resource_def list_order_def tier_def)

lemma compare_nonneg_order: "compare_resource cur new \<ge> 0 \<Longrightarrow> list_order new cur"
  using strcmp_flip [of "res_uri new" "res_uri cur"]
  by (cases "res_type cur"; cases "res_type new")
     (auto simp: compare_resource_def list_order_def tier_def)

lemma set_insert_resource: "set (insert_resource r l) = insert r (set l)"
  by (induction l) auto

lemma mset_insert_resource: "mset (insert_resource r l) = add_mset r (mset l)"
  by (induction l) auto

lemma sorted_insert_resource:
  "sorted_wrt list_order l \<Longrightarrow> sorted_wrt list_order (insert_resource r l)"
proof (induction l)
  case Nil
  then show ?case by simp
next
  case (Cons cur rest)
  show ?case
  proof (cases "compare_resource cur r \<ge> 0")
    case True
    then have "list_order r cur" by (rule compare_nonneg_order)
    moreover from Cons.prems have "\<forall>y\<in>set rest. list_order cur y" by simp
    ultimately have "\<forall>y\<in>set (cur # rest). list_order r y"
      using list_order_trans by auto
    with Cons.prems True show ?thesis by simp
  next
    case False
    then have "list_order cur r" using compare_neg_order by simp
    with Cons False show ?thesis by (auto simp: set_insert_resource)
  qed
qed

lemma list_order_tier_ordered: "list_order a b \<Longrightarrow> tier_ordered a b"
  by (cases "res_type a"; cases "res_type b") (auto simp: list_order_def tier_ordered_def tier_def)

lemma results_sorted:
  "sorted_wrt list_order (lc_list ctx) \<Longrightarrow> sorted_wrt list_order (lc_list (results X ctx e))"
  by (auto simp: results_def sorted_insert_resource split: option.splits)

lemma foldl_results_sorted:
  "sorted_wrt list_order (lc_list ctx) \<Longrightarrow>
   sorted_wrt list_order (lc_list (foldl (results X) ctx es))"
  by (induction es arbitrary: ctx) (auto simp: results_sorted)

lemma fetch_list:
  "lc_list (fst (snd (fetch_resource_list X curi ctx w))) =
     lc_list (foldl (results X) ctx (fst (x_ne_simple_propfind X curi)))"
  by (simp add: fetch_resource_list_def Let_def split: prod.splits)

text \<open>
  C1. Whatever response elements the server delivers, in whatever order, the
  list that \<open>results\<close> builds from the empty list has every error in front of
  every collection and every collection in front of every normal resource, and
  the URIs of the collections, and those of the normal resources, do not
  decrease in byte order from the head on. This holds for the list folded from
  the elements and so for the list \<open>fetch_resource_list\<close> leaves in the context.
\<close>

theorem catalog_three_tier_order:
  "lc_list fetchCtx = [] \<Longrightarrow>
   sorted_wrt tier_ordered (lc_list (foldl (results X) fetchCtx entries)) \<and>
   sorted_wrt tier_ordered (lc_list (fst (snd (fetch_resource_list X curi fetchCtx w))))"
  using foldl_results_sorted [of fetchCtx X]
  by (auto simp: fetch_list list_order_tier_ordered
      intro: sorted_wrt_mono_rel [of _ list_order tier_ordered])

theorem catalog_three_tier_order_witness:
  "lc_list example_context = [] \<and>
   sorted_wrt tier_ordered (lc_list (foldl (results example_extern) example_context example_listing)) \<and>
   map res_uri (lc_list (foldl (results example_extern) example_context example_listing)) =
     [''/dav/b/'', ''/dav/a.txt'', ''/dav/z.txt'']"
proof -
  have e: "lc_list example_context = []" by (simp add: example_context_def)
  have l: "map res_uri (lc_list (foldl (results example_extern) example_context example_listing)) =
     [''/dav/b/'', ''/dav/a.txt'', ''/dav/z.txt'']"
    by code_simp
  from catalog_three_tier_order [OF e, of example_extern example_listing None example_world] e l
  show ?thesis by blast
qed

text \<open>
  The handle \<open>_opendir\<close> returns carries such a list, with the cursor on its
  first entry.
\<close>

lemma opendir_three_tier_order:
  assumes "vio_opendir X uri w = (Some dhandle, w')"
  shows "sorted_wrt tier_ordered (lc_list dhandle) \<and> lc_currResource dhandle = lc_list dhandle"
proof -
  let ?ctx = "\<lparr> lc_list = [], lc_currResource = [], lc_target = x_cleanPath X uri,
                lc_include_target = 0, lc_result_count = 0 \<rparr>"
  let ?f = "fetch_resource_list X (x_cleanPath X uri) ?ctx (snd (dav_connect X uri w))"
  from assms have d: "dhandle = (fst (snd ?f))\<lparr>lc_currResource := lc_list (fst (snd ?f))\<rparr>"
    by (simp add: vio_opendir_def Let_def case_prod_beta split: if_splits)
  have "sorted_wrt list_order (lc_list (fst (snd ?f)))"
    by (simp add: fetch_list foldl_results_sorted)
  then have "sorted_wrt tier_ordered (lc_list (fst (snd ?f)))"
    by (rule sorted_wrt_mono_rel [rotated]) (simp add: list_order_tier_ordered)
  with d show ?thesis by simp
qed

subsection \<open>The target of the listing\<close>

text \<open>
  \<open>results\<close> never changes the target or the flag, and the list it builds holds,
  as a multiset, the resources of the response elements it did not skip.
\<close>

lemma results_keeps:
  "lc_target (results X ctx e) = lc_target ctx"
  "lc_include_target (results X ctx e) = lc_include_target ctx"
  by (auto simp: results_def split: option.splits)

lemma mset_foldl_results:
  "lc_target ctx = Some t \<Longrightarrow>
   mset (lc_list (foldl (results X) ctx es)) =
     mset (lc_list ctx) +
     image_mset (new_resource X)
       (mset (filter (\<lambda>e. \<not> (x_ne_path_compare X t (pe_path e) = 0 \<and>
                                lc_include_target ctx = 0)) es))"
proof (induction es arbitrary: ctx)
  case Nil
  then show ?case by simp
next
  case (Cons e es)
  have t: "lc_target (results X ctx e) = Some t" using Cons.prems by (simp add: results_keeps)
  show ?case
    using Cons.IH [OF t] Cons.prems
    by (simp add: results_keeps) (simp add: results_def mset_insert_resource)
qed

text \<open>
  The number of entries of the list with a given URI is the number of response
  elements not skipped that decode to it. If the server delivers no URI twice,
  the URI of an element that matches the target is counted 0 times without
  \<open>include_target\<close> and once with it.
\<close>

lemma res_uri_new_resource: "res_uri (new_resource X e) = x_ne_path_unescape X (pe_path e)"
  by (simp add: new_resource_def Let_def)

lemma filter_same_key:
  "distinct (map f es) \<Longrightarrow> e \<in> set es \<Longrightarrow> filter (\<lambda>e'. f e' = f e) es = [e]"
proof (induction es)
  case Nil
  then show ?case by simp
next
  case (Cons x xs)
  show ?case
  proof (cases "x = e")
    case True
    with Cons.prems have "f e \<notin> f ` set xs" by simp
    then have "\<forall>y\<in>set xs. f y \<noteq> f e" by (metis imageI)
    then have "filter (\<lambda>e'. f e' = f e) xs = []" by (simp add: filter_empty_conv)
    with True show ?thesis by simp
  next
    case False
    with Cons.prems have "e \<in> set xs" and "f x \<noteq> f e" by auto
    with Cons show ?thesis by simp
  qed
qed

lemma count_uri_in_list:
  assumes "lc_target ctx = Some t" and "lc_list ctx = []"
  shows "length (filter (\<lambda>r. res_uri r = u) (lc_list (foldl (results X) ctx es))) =
         length (filter (\<lambda>e. x_ne_path_unescape X (pe_path e) = u)
           (filter (\<lambda>e. \<not> (x_ne_path_compare X t (pe_path e) = 0 \<and>
                                lc_include_target ctx = 0)) es))"
proof -
  have "length (filter (\<lambda>r. res_uri r = u) (lc_list (foldl (results X) ctx es))) =
        size (filter_mset (\<lambda>r. res_uri r = u) (mset (lc_list (foldl (results X) ctx es))))"
    by (metis mset_filter size_mset)
  also have "\<dots> = size (filter_mset (\<lambda>r. res_uri r = u) (image_mset (new_resource X)
       (mset (filter (\<lambda>e. \<not> (x_ne_path_compare X t (pe_path e) = 0 \<and>
                                lc_include_target ctx = 0)) es))))"
    using assms by (simp add: mset_foldl_results)
  also have "\<dots> = length (filter (\<lambda>e. x_ne_path_unescape X (pe_path e) = u)
           (filter (\<lambda>e. \<not> (x_ne_path_compare X t (pe_path e) = 0 \<and>
                                lc_include_target ctx = 0)) es))"
    by (simp add: filter_mset_image_mset res_uri_new_resource flip: mset_filter)
  finally show ?thesis .
qed

lemma target_uri_count:
  assumes "lc_target ctx = Some t" and "lc_list ctx = []"
      and "distinct (map (\<lambda>e. x_ne_path_unescape X (pe_path e)) es)"
      and "e \<in> set es" and "x_ne_path_compare X t (pe_path e) = 0"
  shows "length (filter (\<lambda>r. res_uri r = x_ne_path_unescape X (pe_path e))
                   (lc_list (foldl (results X) ctx es))) =
         (if lc_include_target ctx = 0 then 0 else 1)"
proof -
  let ?u = "\<lambda>e. x_ne_path_unescape X (pe_path e)"
  let ?keep = "\<lambda>e. \<not> (x_ne_path_compare X t (pe_path e) = 0 \<and> lc_include_target ctx = 0)"
  have "filter (\<lambda>e'. ?u e' = ?u e) (filter ?keep es) =
        filter ?keep (filter (\<lambda>e'. ?u e' = ?u e) es)"
    by (simp add: conj_commute)
  also have "\<dots> = filter ?keep [e]"
    using filter_same_key [OF assms(3,4)] by simp
  finally have "length (filter (\<lambda>e'. ?u e' = ?u e) (filter ?keep es)) =
      (if lc_include_target ctx = 0 then 0 else 1)"
    using assms(5) by simp
  with count_uri_in_list [OF assms(1,2), of "?u e" X es] show ?thesis by simp
qed

lemma count_uri_kept:
  assumes "lc_target ctx = Some t" and "lc_list ctx = []"
  shows "length (filter (\<lambda>r. res_uri r = u) (lc_list (foldl (results X) ctx es))) =
         length (filter (\<lambda>e. x_ne_path_unescape X (pe_path e) = u)
           (if lc_include_target ctx = 0
            then filter (\<lambda>e. x_ne_path_compare X t (pe_path e) \<noteq> 0) es else es))"
  using count_uri_in_list [OF assms, of u X es] by (simp cong: filter_cong)

text \<open>
  C3, as the code has it. For a listing with a target, started from the empty
  list, whatever the server delivers: the list holds, as a multiset, one
  resource for each response element when \<open>include_target\<close> is set, and one for
  each element whose path \<open>ne_path_compare\<close> does not match with the target
  when it is 0; this holds for the list folded from the elements and for the
  list \<open>fetch_resource_list\<close> leaves. So the number of entries with a given URI
  is the number of elements kept that decode to it: an element that matches the
  target contributes no entry without \<open>include_target\<close>, and with it one entry
  for each time the server delivered it.
\<close>

theorem listing_target_exclusion:
  assumes "lc_target ctx = Some t" and "lc_list ctx = []"
  shows "mset (lc_list (foldl (results X) ctx es)) =
           image_mset (new_resource X)
             (mset (if lc_include_target ctx = 0
                    then filter (\<lambda>e. x_ne_path_compare X t (pe_path e) \<noteq> 0) es
                    else es)) \<and>
         mset (lc_list (fst (snd (fetch_resource_list X curi ctx w)))) =
           image_mset (new_resource X)
             (mset (if lc_include_target ctx = 0
                    then filter (\<lambda>e. x_ne_path_compare X t (pe_path e) \<noteq> 0)
                           (fst (x_ne_simple_propfind X curi))
                    else fst (x_ne_simple_propfind X curi))) \<and>
         length (filter (\<lambda>r. res_uri r = u) (lc_list (foldl (results X) ctx es))) =
           length (filter (\<lambda>e. x_ne_path_unescape X (pe_path e) = u)
             (if lc_include_target ctx = 0
              then filter (\<lambda>e. x_ne_path_compare X t (pe_path e) \<noteq> 0) es else es))"
proof (intro conjI)
  show "mset (lc_list (foldl (results X) ctx es)) =
           image_mset (new_resource X)
             (mset (if lc_include_target ctx = 0
                    then filter (\<lambda>e. x_ne_path_compare X t (pe_path e) \<noteq> 0) es
                    else es))"
    using assms by (simp add: mset_foldl_results)
  show "mset (lc_list (fst (snd (fetch_resource_list X curi ctx w)))) =
           image_mset (new_resource X)
             (mset (if lc_include_target ctx = 0
                    then filter (\<lambda>e. x_ne_path_compare X t (pe_path e) \<noteq> 0)
                           (fst (x_ne_simple_propfind X curi))
                    else fst (x_ne_simple_propfind X curi)))"
    using assms by (simp add: fetch_list mset_foldl_results)
  show "length (filter (\<lambda>r. res_uri r = u) (lc_list (foldl (results X) ctx es))) =
           length (filter (\<lambda>e. x_ne_path_unescape X (pe_path e) = u)
             (if lc_include_target ctx = 0
              then filter (\<lambda>e. x_ne_path_compare X t (pe_path e) \<noteq> 0) es else es))"
    using assms by (rule count_uri_kept)
qed

theorem listing_target_exclusion_witness:
  "lc_target example_context = Some ''/dav/'' \<and> lc_list example_context = [] \<and>
   lc_include_target example_context = 0 \<and>
   lc_target included_context = Some ''/dav/'' \<and> lc_list included_context = [] \<and>
   lc_include_target included_context \<noteq> 0 \<and>
   x_ne_path_compare example_extern ''/dav/'' (pe_path (hd example_listing)) = 0 \<and>
   length (filter (\<lambda>r. res_uri r = ''/dav/'')
     (lc_list (foldl (results example_extern) example_context example_listing))) = 0 \<and>
   length (filter (\<lambda>r. res_uri r = ''/dav/'')
     (lc_list (foldl (results example_extern) included_context example_listing))) = 1"
proof -
  have t: "lc_target example_context = Some ''/dav/''" by (simp add: example_context_def)
  have l: "lc_list example_context = []" by (simp add: example_context_def)
  have i: "lc_include_target example_context = 0" by (simp add: example_context_def)
  have t1: "lc_target included_context = Some ''/dav/''"
    by (simp add: included_context_def example_context_def)
  have l1: "lc_list included_context = []"
    by (simp add: included_context_def example_context_def)
  have i1: "lc_include_target included_context \<noteq> 0"
    by (simp add: included_context_def)
  have m: "x_ne_path_compare example_extern ''/dav/'' (pe_path (hd example_listing)) = 0"
    by code_simp
  have k0: "length (filter (\<lambda>e. x_ne_path_unescape example_extern (pe_path e) = ''/dav/'')
      (filter (\<lambda>e. x_ne_path_compare example_extern ''/dav/'' (pe_path e) \<noteq> 0)
         example_listing)) = 0"
    by code_simp
  have k1: "length (filter (\<lambda>e. x_ne_path_unescape example_extern (pe_path e) = ''/dav/'')
      example_listing) = 1"
    by code_simp
  from listing_target_exclusion [OF t l, of example_extern example_listing None example_world
      "''/dav/''"] i k0
  have a: "length (filter (\<lambda>r. res_uri r = ''/dav/'')
     (lc_list (foldl (results example_extern) example_context example_listing))) = 0"
    by simp
  from listing_target_exclusion [OF t1 l1, of example_extern example_listing None
      example_world "''/dav/''"] i1 k1
  have b: "length (filter (\<lambda>r. res_uri r = ''/dav/'')
     (lc_list (foldl (results example_extern) included_context example_listing))) = 1"
    by simp
  from t l i t1 l1 i1 m a b show ?thesis by blast
qed

text \<open>
  The claim as the specification words it (with \<open>include_target\<close> the entry of
  the target is there exactly once) fails for a server that delivers the
  element of the target twice: \<open>results\<close> does not look for an entry of the same
  URI, and the list has two.
\<close>

theorem listing_target_twice_counterexample:
  "lc_target included_context = Some ''/dav/'' \<and> lc_list included_context = [] \<and>
   lc_include_target included_context = 1 \<and>
   fst (x_ne_simple_propfind twice_extern (Some ''/dav/'')) = twice_listing \<and>
   x_ne_path_compare twice_extern ''/dav/'' (pe_path (hd twice_listing)) = 0 \<and>
   length (filter (\<lambda>r. res_uri r = x_ne_path_unescape twice_extern (pe_path (hd twice_listing)))
     (lc_list (fst (snd (fetch_resource_list twice_extern (Some ''/dav/'') included_context
        example_world))))) = 2"
  by code_simp

subsection \<open>Connecting\<close>

text \<open>
  C7. The scheme \<open>owncloud\<close> gives the protocol \<open>http\<close>. For the scheme
  \<open>ownclouds\<close> neither branch is taken and the buffer \<open>protocol\<close> is never written;
  any other scheme gives \<open>https\<close>. Connecting to an \<open>ownclouds\<close> URL creates the
  session from the unwritten buffer.
\<close>

theorem connect_ownclouds_protocol:
  "connect_protocol ''owncloud'' = Some ''http'' \<and>
   connect_protocol ''ownclouds'' = None \<and>
   connect_protocol ''sftp'' = Some ''https'' \<and>
   (case dav_connect example_extern ''ownclouds://example.org/dav/'' example_world of
      (rc, w') \<Rightarrow> rc = 0 \<and> w_connected w' \<and>
        map_option ses_protocol (ds_ctx (w_dav_session w')) = Some None)"
  by (simp add: connect_protocol_def dav_connect_def example_extern_def example_world_def
      connect_userinfo_def Let_def)

subsection \<open>The stat cache\<close>


text \<open>
  A step of \<open>_readdir\<close> that yields an entry leaves exactly that entry in \<open>_fs\<close>
  and makes no request.
\<close>

lemma readdir_fills_cache:
  assumes "vio_readdir dhandle w = (Some lfs, dhandle', w')"
  shows "st_name (w_fs w') = st_name lfs \<and> st_type (w_fs w') = st_type lfs \<and>
         st_size (w_fs w') = st_size lfs \<and> st_mtime (w_fs w') = st_mtime lfs \<and>
         st_fields (w_fs w') = st_fields lfs \<and> w_trace w' = w_trace w"
  using assms by (auto simp: vio_readdir_def split: option.splits)



text \<open>
  Hence a \<open>_stat\<close> that follows a step of \<open>_readdir\<close> and asks for the name of the
  entry just read answers with the fields of that entry, without a request.
\<close>

lemma readdir_then_stat:
  assumes "vio_readdir dhandle w = (Some lfs, dhandle', w')"
      and "st_name lfs = Some nm" and "x_c_basename X uri = Some nm"
  shows "\<exists>b. vio_stat X uri buf w' = (0, Some b, w') \<and>
             vio_stat_2 X uri buf w' = (0, Some b, w') \<and>
             st_type b = st_type lfs \<and> st_size b = st_size lfs \<and>
             st_mtime b = st_mtime lfs \<and> st_fields b = st_fields lfs \<and>
             st_mode b = stat_perms (st_type lfs) \<and> w_trace w' = w_trace w"
proof -
  from readdir_fills_cache [OF assms(1)] assms(2)
  have c: "st_name (w_fs w') = Some nm" and f: "st_type (w_fs w') = st_type lfs"
    "st_size (w_fs w') = st_size lfs" "st_mtime (w_fs w') = st_mtime lfs"
    "st_fields (w_fs w') = st_fields lfs" "w_trace w' = w_trace w"
    by simp_all
  from assms(3) c f show ?thesis
    by (simp add: vio_stat_def vio_stat_2_def strcmp_eq_0_iff Let_def)
qed

subsection \<open>open\<close>

text \<open>
  \<open>dav_connect\<close>, \<open>fetch_resource_list\<close> and \<open>_stat\<close> leave the local storage as it
  is; \<open>_stat\<close> adds at most one PROPFIND to the calls.
\<close>

lemma dav_connect_files: "w_files (snd (dav_connect X u w)) = w_files w"
  by (simp add: dav_connect_def Let_def case_prod_beta)

lemma dav_connect_trace: "w_trace (snd (dav_connect X u w)) = w_trace w"
  by (simp add: dav_connect_def Let_def case_prod_beta)

lemma fetch_files: "w_files (snd (snd (fetch_resource_list X curi ctx w))) = w_files w"
  by (simp add: fetch_resource_list_def Let_def case_prod_beta emit_def)

lemma fetch_trace:
  "w_trace (snd (snd (fetch_resource_list X curi ctx w))) = w_trace w @ [Ev_propfind curi]"
  by (simp add: fetch_resource_list_def Let_def case_prod_beta emit_def)

lemma vio_stat_files: "w_files (snd (snd (vio_stat X uri buf w))) = w_files w"
  by (simp add: vio_stat_def Let_def case_prod_beta fetch_files split: option.split)

lemma vio_stat_trace:
  "w_trace (snd (snd (vio_stat X uri buf w))) = w_trace w \<or>
   w_trace (snd (snd (vio_stat X uri buf w))) = w_trace w @ [Ev_propfind (x_cleanPath X uri)]"
  by (simp add: vio_stat_def Let_def case_prod_beta fetch_trace split: option.split)

text \<open>
  What \<open>_open\<close> does for a handle to write once \<open>_cleanPath\<close> has accepted the
  URI, in terms of the result of its \<open>_stat\<close> on the parent: when that fails, NULL
  with \<open>errno = ENOENT\<close>, the local storage as before and no further call; when
  it succeeds, the \<open>mkstemp\<close> comes after every call of \<open>_stat\<close>.
\<close>

lemma open_put_after_stat:
  assumes "x_cleanPath X durl = Some uri"
      and "O_WRONLY \<in> flags \<or> O_RDWR \<in> flags \<or> O_CREAT \<in> flags"
  shows "w_files (snd (snd (open_parent_stat X durl w))) = w_files w \<and>
         (\<forall>n. Ev_mkstemp n \<in> set (w_trace (snd (snd (open_parent_stat X durl w))))
              \<longrightarrow> Ev_mkstemp n \<in> set (w_trace w)) \<and>
         (fst (open_parent_stat X durl w) \<noteq> 0 \<longrightarrow>
            fst (vio_open X durl flags w) = None \<and>
            w_errno (snd (vio_open X durl flags w)) = ENOENT \<and>
            w_files (snd (vio_open X durl flags w)) = w_files w \<and>
            w_trace (snd (vio_open X durl flags w)) =
              w_trace (snd (snd (open_parent_stat X durl w)))) \<and>
         (fst (open_parent_stat X durl w) = 0 \<longrightarrow>
            (\<exists>tmp evs. w_trace (snd (vio_open X durl flags w)) =
               w_trace (snd (snd (open_parent_stat X durl w))) @ Ev_mkstemp tmp # evs))"
proof -
  obtain st b wst where s: "open_parent_stat X durl w = (st, b, wst)"
    by (cases "open_parent_stat X durl w") auto
  then have v: "vio_stat X (x_c_dirname X durl) statBuf (snd (dav_connect X durl w)) = (st, b, wst)"
    by (simp add: open_parent_stat_def)
  from vio_stat_files [of X "x_c_dirname X durl" statBuf "snd (dav_connect X durl w)"]
    vio_stat_trace [of X "x_c_dirname X durl" statBuf "snd (dav_connect X durl w)"] v
  have loc: "w_files wst = w_files w"
    and tr: "w_trace wst = w_trace w \<or>
             w_trace wst = w_trace w @ [Ev_propfind (x_cleanPath X (x_c_dirname X durl))]"
    by (simp_all add: dav_connect_files dav_connect_trace)
  from tr have nomk: "\<forall>n. Ev_mkstemp n \<in> set (w_trace wst) \<longrightarrow> Ev_mkstemp n \<in> set (w_trace w)"
    by auto
  have fail: "st \<noteq> 0 \<Longrightarrow> vio_open X durl flags w = (None, wst\<lparr>w_errno := ENOENT\<rparr>)"
    using assms v by (simp add: vio_open_def Let_def)
  have ok: "\<exists>tmp evs. w_trace (snd (vio_open X durl flags w)) =
               w_trace wst @ Ev_mkstemp tmp # evs" if z: "st = 0"
  proof -
    obtain fd tmp where m: "x_mkstemp X ''/tmp/csync.XXXXXX'' = (fd, tmp)"
      by (cases "x_mkstemp X ''/tmp/csync.XXXXXX''") auto
    show ?thesis
    proof (cases "fd = - 1")
      case True
      with assms v z m
      have "w_trace (snd (vio_open X durl flags w)) = w_trace wst @ Ev_mkstemp tmp # []"
        by (simp add: vio_open_def Let_def emit_def NE_defs)
      then show ?thesis by blast
    next
      case False
      show ?thesis
      proof (cases "x_ne_request_create X uri")
        case True
        with assms v z m False
        have "w_trace (snd (vio_open X durl flags w)) =
                w_trace wst @ Ev_mkstemp tmp # [Ev_begin_request uri]"
          by (simp add: vio_open_def Let_def emit_def NE_defs)
        then show ?thesis by blast
      next
        case nc: False
        with assms v z m False
        have "w_trace (snd (vio_open X durl flags w)) = w_trace wst @ Ev_mkstemp tmp # []"
          by (simp add: vio_open_def Let_def emit_def NE_defs)
        then show ?thesis by blast
      qed
    qed
  qed
  from s loc nomk fail ok show ?thesis by auto
qed

text \<open>
  When \<open>_cleanPath\<close> returns NULL, \<open>_open\<close> returns NULL at once: no \<open>_stat\<close>, no
  temporary file, and \<open>errno\<close> is left as it was.
\<close>

lemma open_bad_uri: "x_cleanPath X durl = None \<Longrightarrow> vio_open X durl flags w = (None, w)"
  by (simp add: vio_open_def)

text \<open>
  When \<open>_stat\<close> fails and when it succeeds: it fails when \<open>c_basename\<close> returns
  NULL; it succeeds without a request when the base name is the name in the
  static \<open>_fs\<close>; otherwise it sends one PROPFIND and returns what that returns.
\<close>

lemma dav_connect_fs: "w_fs (snd (dav_connect X u w)) = w_fs w"
  by (simp add: dav_connect_def Let_def case_prod_beta)

lemma fetch_rc: "fst (fetch_resource_list X curi ctx w) = snd (x_ne_simple_propfind X curi)"
  by (simp add: fetch_resource_list_def Let_def case_prod_beta)

lemma vio_stat_no_basename:
  "x_c_basename X uri = None \<Longrightarrow>
   fst (vio_stat X uri buf w) = - 1 \<and> w_trace (snd (snd (vio_stat X uri buf w))) = w_trace w"
  by (simp add: vio_stat_def)

lemma vio_stat_cached:
  "x_c_basename X uri = Some nm \<Longrightarrow> st_name (w_fs w) = Some nm \<Longrightarrow>
   fst (vio_stat X uri buf w) = 0 \<and> w_trace (snd (snd (vio_stat X uri buf w))) = w_trace w"
  by (simp add: vio_stat_def strcmp_eq_0_iff Let_def)

lemma vio_stat_asks:
  "x_c_basename X uri = Some nm \<Longrightarrow> st_name (w_fs w) \<noteq> Some nm \<Longrightarrow>
   fst (vio_stat X uri buf w) =
     (if snd (x_ne_simple_propfind X (x_cleanPath X uri)) = NE_OK then 0 else - 1) \<and>
   w_trace (snd (snd (vio_stat X uri buf w))) = w_trace w @ [Ev_propfind (x_cleanPath X uri)]"
  by (cases "st_name (w_fs w)")
     (simp_all add: vio_stat_def strcmp_eq_0_iff Let_def case_prod_beta fetch_rc fetch_trace
       split: option.split)

text \<open>
  C8, as the code has it. For an open with one of \<open>O_WRONLY\<close>, \<open>O_RDWR\<close>, \<open>O_CREAT\<close>
  set, in every environment and world:
  \<^item> when \<open>_cleanPath\<close> rejects the URI, \<open>_open\<close> returns NULL and leaves the world
    as it is: no \<open>_stat\<close>, no temporary file, \<open>errno\<close> unchanged;
  \<^item> when the URI is accepted and the base name of the parent is not the name
    in the static \<open>_fs\<close>, \<open>_stat\<close> sends a PROPFIND on the parent before anything
    else; if it fails (the parent does not exist), \<open>_open\<close> returns NULL with
    \<open>errno = ENOENT\<close>, the local storage is as before and the PROPFIND is the
    only call; if it succeeds, the \<open>mkstemp\<close> follows it; likewise, when
    \<open>c_basename\<close> returns NULL, NULL with \<open>ENOENT\<close> and no call at all;
  \<^item> when the base name of the parent is the name in the static \<open>_fs\<close>, \<open>_stat\<close>
    answers from it, no PROPFIND is sent, and the first call is the \<open>mkstemp\<close>,
    whether the parent exists on the server or not.
\<close>

theorem open_put_parent_check:
  assumes "O_WRONLY \<in> flags \<or> O_RDWR \<in> flags \<or> O_CREAT \<in> flags"
  shows
    "(x_cleanPath X durl = None \<longrightarrow> vio_open X durl flags w = (None, w)) \<and>
     (x_cleanPath X durl \<noteq> None \<and> x_c_basename X (x_c_dirname X durl) = None \<longrightarrow>
        fst (vio_open X durl flags w) = None \<and>
        w_errno (snd (vio_open X durl flags w)) = ENOENT \<and>
        w_files (snd (vio_open X durl flags w)) = w_files w \<and>
        w_trace (snd (vio_open X durl flags w)) = w_trace w) \<and>
     (x_cleanPath X durl \<noteq> None \<and> x_c_basename X (x_c_dirname X durl) \<noteq> None \<and>
      x_c_basename X (x_c_dirname X durl) \<noteq> st_name (w_fs w) \<and>
      snd (x_ne_simple_propfind X (x_cleanPath X (x_c_dirname X durl))) \<noteq> NE_OK \<longrightarrow>
        fst (vio_open X durl flags w) = None \<and>
        w_errno (snd (vio_open X durl flags w)) = ENOENT \<and>
        w_files (snd (vio_open X durl flags w)) = w_files w \<and>
        w_trace (snd (vio_open X durl flags w)) =
          w_trace w @ [Ev_propfind (x_cleanPath X (x_c_dirname X durl))]) \<and>
     (x_cleanPath X durl \<noteq> None \<and> x_c_basename X (x_c_dirname X durl) \<noteq> None \<and>
      x_c_basename X (x_c_dirname X durl) \<noteq> st_name (w_fs w) \<and>
      snd (x_ne_simple_propfind X (x_cleanPath X (x_c_dirname X durl))) = NE_OK \<longrightarrow>
        (\<exists>tmp evs. w_trace (snd (vio_open X durl flags w)) =
           w_trace w @ Ev_propfind (x_cleanPath X (x_c_dirname X durl)) # Ev_mkstemp tmp # evs)) \<and>
     (x_cleanPath X durl \<noteq> None \<and> x_c_basename X (x_c_dirname X durl) \<noteq> None \<and>
      x_c_basename X (x_c_dirname X durl) = st_name (w_fs w) \<longrightarrow>
        (\<exists>tmp evs. w_trace (snd (vio_open X durl flags w)) =
           w_trace w @ Ev_mkstemp tmp # evs))"
proof -
  let ?dir = "x_c_dirname X durl"
  let ?w1 = "snd (dav_connect X durl w)"
  let ?st = "fst (open_parent_stat X durl w)"
  let ?wst = "snd (snd (open_parent_stat X durl w))"
  have ps: "open_parent_stat X durl w = vio_stat X ?dir statBuf ?w1"
    by (simp add: open_parent_stat_def)
  have bad: "x_cleanPath X durl = None \<Longrightarrow> vio_open X durl flags w = (None, w)"
    by (rule open_bad_uri)
  have nobase: "fst (vio_open X durl flags w) = None \<and>
        w_errno (snd (vio_open X durl flags w)) = ENOENT \<and>
        w_files (snd (vio_open X durl flags w)) = w_files w \<and>
        w_trace (snd (vio_open X durl flags w)) = w_trace w"
    if c: "x_cleanPath X durl \<noteq> None" and b: "x_c_basename X ?dir = None"
  proof -
    from c obtain uri where u: "x_cleanPath X durl = Some uri" by auto
    from vio_stat_no_basename [OF b, of statBuf ?w1] ps
    have "?st \<noteq> 0" and "w_trace ?wst = w_trace w"
      by (simp_all add: dav_connect_trace)
    with open_put_after_stat [OF u assms, of w] show ?thesis by simp
  qed
  have asks: "?st = (if snd (x_ne_simple_propfind X (x_cleanPath X ?dir)) = NE_OK then 0 else - 1)
      \<and> w_trace ?wst = w_trace w @ [Ev_propfind (x_cleanPath X ?dir)]"
    if b: "x_c_basename X ?dir \<noteq> None" and n: "x_c_basename X ?dir \<noteq> st_name (w_fs w)"
  proof -
    from b obtain nm where nm: "x_c_basename X ?dir = Some nm" by auto
    with n have "st_name (w_fs ?w1) \<noteq> Some nm" by (simp add: dav_connect_fs)
    from vio_stat_asks [OF nm this, of statBuf] ps show ?thesis
      by (simp add: dav_connect_trace)
  qed
  have missing: "fst (vio_open X durl flags w) = None \<and>
        w_errno (snd (vio_open X durl flags w)) = ENOENT \<and>
        w_files (snd (vio_open X durl flags w)) = w_files w \<and>
        w_trace (snd (vio_open X durl flags w)) =
          w_trace w @ [Ev_propfind (x_cleanPath X ?dir)]"
    if c: "x_cleanPath X durl \<noteq> None" and b: "x_c_basename X ?dir \<noteq> None"
      and n: "x_c_basename X ?dir \<noteq> st_name (w_fs w)"
      and f: "snd (x_ne_simple_propfind X (x_cleanPath X ?dir)) \<noteq> NE_OK"
  proof -
    from c obtain uri where u: "x_cleanPath X durl = Some uri" by auto
    from asks [OF b n] f have "?st \<noteq> 0"
      and "w_trace ?wst = w_trace w @ [Ev_propfind (x_cleanPath X ?dir)]"
      by simp_all
    with open_put_after_stat [OF u assms, of w] show ?thesis by simp
  qed
  have found: "\<exists>tmp evs. w_trace (snd (vio_open X durl flags w)) =
           w_trace w @ Ev_propfind (x_cleanPath X ?dir) # Ev_mkstemp tmp # evs"
    if c: "x_cleanPath X durl \<noteq> None" and b: "x_c_basename X ?dir \<noteq> None"
      and n: "x_c_basename X ?dir \<noteq> st_name (w_fs w)"
      and f: "snd (x_ne_simple_propfind X (x_cleanPath X ?dir)) = NE_OK"
  proof -
    from c obtain uri where u: "x_cleanPath X durl = Some uri" by auto
    from asks [OF b n] f have "?st = 0"
      and "w_trace ?wst = w_trace w @ [Ev_propfind (x_cleanPath X ?dir)]"
      by simp_all
    with open_put_after_stat [OF u assms, of w] show ?thesis by simp
  qed
  have cached: "\<exists>tmp evs. w_trace (snd (vio_open X durl flags w)) =
           w_trace w @ Ev_mkstemp tmp # evs"
    if c: "x_cleanPath X durl \<noteq> None" and b: "x_c_basename X ?dir \<noteq> None"
      and h: "x_c_basename X ?dir = st_name (w_fs w)"
  proof -
    from c obtain uri where u: "x_cleanPath X durl = Some uri" by auto
    from b obtain nm where nm: "x_c_basename X ?dir = Some nm" by auto
    with h have "st_name (w_fs ?w1) = Some nm" by (simp add: dav_connect_fs)
    from vio_stat_cached [OF nm this, of statBuf] ps
    have "?st = 0" and "w_trace ?wst = w_trace w"
      by (simp_all add: dav_connect_trace)
    with open_put_after_stat [OF u assms, of w] show ?thesis by simp
  qed
  from bad nobase missing found cached show ?thesis by blast
qed

theorem open_put_parent_check_witness:
  "O_CREAT \<in> write_flags \<and>
   x_cleanPath unparsable_extern new_file_url = None \<and>
   vio_open unparsable_extern new_file_url write_flags example_world = (None, example_world) \<and>
   x_c_basename no_basename_extern (x_c_dirname no_basename_extern new_file_url) = None \<and>
   w_errno (snd (vio_open no_basename_extern new_file_url write_flags example_world)) = ENOENT \<and>
   x_c_basename missing_parent_extern (x_c_dirname missing_parent_extern new_file_url)
     \<noteq> st_name (w_fs example_world) \<and>
   snd (x_ne_simple_propfind missing_parent_extern
          (x_cleanPath missing_parent_extern (x_c_dirname missing_parent_extern new_file_url)))
     \<noteq> NE_OK \<and>
   fst (vio_open missing_parent_extern new_file_url write_flags example_world) = None \<and>
   w_errno (snd (vio_open missing_parent_extern new_file_url write_flags example_world))
     = ENOENT \<and>
   w_files (snd (vio_open missing_parent_extern new_file_url write_flags example_world))
     = w_files example_world \<and>
   w_trace (snd (vio_open missing_parent_extern new_file_url write_flags example_world))
     = [Ev_propfind (Some ''/dav/'')] \<and>
   (\<exists>tmp evs. w_trace (snd (vio_open example_extern new_file_url write_flags example_world)) =
      Ev_propfind (Some ''/dav/'') # Ev_mkstemp tmp # evs) \<and>
   x_c_basename missing_parent_extern (x_c_dirname missing_parent_extern new_file_url)
     = st_name (w_fs stale_cache_world) \<and>
   (\<exists>tmp evs. w_trace (snd (vio_open missing_parent_extern new_file_url write_flags
      stale_cache_world)) = Ev_mkstemp tmp # evs)"
proof -
  have f: "O_WRONLY \<in> write_flags \<or> O_RDWR \<in> write_flags \<or> O_CREAT \<in> write_flags"
    by (simp add: write_flags_def)
  have fc: "O_CREAT \<in> write_flags" by (simp add: write_flags_def)
  have a1: "x_cleanPath unparsable_extern new_file_url = None"
    by (simp add: unparsable_extern_def)
  have b1: "x_cleanPath no_basename_extern new_file_url \<noteq> None" by code_simp
  have b2: "x_c_basename no_basename_extern (x_c_dirname no_basename_extern new_file_url) = None"
    by (simp add: no_basename_extern_def)
  have c1: "x_cleanPath missing_parent_extern new_file_url \<noteq> None" by code_simp
  have c2: "x_c_basename missing_parent_extern (x_c_dirname missing_parent_extern new_file_url)
     \<noteq> None" by code_simp
  have c3: "x_c_basename missing_parent_extern (x_c_dirname missing_parent_extern new_file_url)
     \<noteq> st_name (w_fs example_world)" by code_simp
  have c4: "snd (x_ne_simple_propfind missing_parent_extern
          (x_cleanPath missing_parent_extern (x_c_dirname missing_parent_extern new_file_url)))
     \<noteq> NE_OK" by code_simp
  have c5: "x_cleanPath missing_parent_extern (x_c_dirname missing_parent_extern new_file_url)
     = Some ''/dav/''" by code_simp
  have d1: "x_cleanPath example_extern new_file_url \<noteq> None" by code_simp
  have d2: "x_c_basename example_extern (x_c_dirname example_extern new_file_url) \<noteq> None"
    by code_simp
  have d3: "x_c_basename example_extern (x_c_dirname example_extern new_file_url)
     \<noteq> st_name (w_fs example_world)" by code_simp
  have d4: "snd (x_ne_simple_propfind example_extern
          (x_cleanPath example_extern (x_c_dirname example_extern new_file_url))) = NE_OK"
    by code_simp
  have d5: "x_cleanPath example_extern (x_c_dirname example_extern new_file_url)
     = Some ''/dav/''" by code_simp
  have e3: "x_c_basename missing_parent_extern (x_c_dirname missing_parent_extern new_file_url)
     = st_name (w_fs stale_cache_world)" by code_simp
  have t0: "w_trace example_world = []" by (simp add: example_world_def)
  have t1: "w_trace stale_cache_world = []"
    by (simp add: stale_cache_world_def example_world_def)
  from open_put_parent_check [OF f, of unparsable_extern new_file_url example_world] a1
  have ra: "vio_open unparsable_extern new_file_url write_flags example_world
      = (None, example_world)" by blast
  from open_put_parent_check [OF f, of no_basename_extern new_file_url example_world] b1 b2
  have rb: "w_errno (snd (vio_open no_basename_extern new_file_url write_flags example_world))
      = ENOENT" by blast
  from open_put_parent_check [OF f, of missing_parent_extern new_file_url example_world]
    c1 c2 c3 c4
  have rc: "fst (vio_open missing_parent_extern new_file_url write_flags example_world) = None \<and>
   w_errno (snd (vio_open missing_parent_extern new_file_url write_flags example_world))
     = ENOENT \<and>
   w_files (snd (vio_open missing_parent_extern new_file_url write_flags example_world))
     = w_files example_world \<and>
   w_trace (snd (vio_open missing_parent_extern new_file_url write_flags example_world))
     = w_trace example_world @ [Ev_propfind (x_cleanPath missing_parent_extern
         (x_c_dirname missing_parent_extern new_file_url))]" by blast
  from open_put_parent_check [OF f, of example_extern new_file_url example_world] d1 d2 d3 d4
  have rd: "\<exists>tmp evs. w_trace (snd (vio_open example_extern new_file_url write_flags
      example_world)) = w_trace example_world @
        Ev_propfind (x_cleanPath example_extern (x_c_dirname example_extern new_file_url))
          # Ev_mkstemp tmp # evs" by blast
  from open_put_parent_check [OF f, of missing_parent_extern new_file_url stale_cache_world]
    c1 c2 e3
  have re: "\<exists>tmp evs. w_trace (snd (vio_open missing_parent_extern new_file_url write_flags
      stale_cache_world)) = w_trace stale_cache_world @ Ev_mkstemp tmp # evs" by blast
  from fc a1 ra b2 rb c3 c4 rc rd re e3 show ?thesis
    by (simp add: c5 d5 t0 t1)
qed

text \<open>
  The claim as the specification words it fails in the two cases the theorem
  sets apart. A URI that \<open>_cleanPath\<close> rejects: the PROPFIND on the parent would
  fail, \<open>_open\<close> returns NULL, and \<open>errno\<close> is not \<open>ENOENT\<close>. A parent whose base
  name \<open>dav\<close> is the name in the static \<open>_fs\<close>: every PROPFIND fails, yet \<open>_open\<close>
  sends none, creates the temporary file and returns a handle.
\<close>

theorem open_parent_counterexample:
  "O_CREAT \<in> write_flags \<and>
   snd (x_ne_simple_propfind unparsable_extern
          (x_cleanPath unparsable_extern (x_c_dirname unparsable_extern new_file_url)))
     \<noteq> NE_OK \<and>
   fst (open_parent_stat unparsable_extern new_file_url example_world) \<noteq> 0 \<and>
   fst (vio_open unparsable_extern new_file_url write_flags example_world) = None \<and>
   w_errno (snd (vio_open unparsable_extern new_file_url write_flags example_world))
     \<noteq> ENOENT \<and>
   snd (x_ne_simple_propfind missing_parent_extern
          (x_cleanPath missing_parent_extern (x_c_dirname missing_parent_extern new_file_url)))
     \<noteq> NE_OK \<and>
   x_cleanPath missing_parent_extern new_file_url = Some ''/dav/new.txt'' \<and>
   fst (vio_open missing_parent_extern new_file_url write_flags stale_cache_world) \<noteq> None \<and>
   w_errno (snd (vio_open missing_parent_extern new_file_url write_flags stale_cache_world))
     = NOERR \<and>
   w_files (snd (vio_open missing_parent_extern new_file_url write_flags stale_cache_world))
     = {''/tmp/csync.a1b2c3''} \<and>
   w_trace (snd (vio_open missing_parent_extern new_file_url write_flags stale_cache_world))
     = [Ev_mkstemp ''/tmp/csync.a1b2c3'', Ev_begin_request ''/dav/new.txt'']"
proof -
  have a: "O_CREAT \<in> write_flags" by (simp add: write_flags_def)
  have b: "snd (x_ne_simple_propfind unparsable_extern
          (x_cleanPath unparsable_extern (x_c_dirname unparsable_extern new_file_url)))
     \<noteq> NE_OK" by code_simp
  have c: "fst (open_parent_stat unparsable_extern new_file_url example_world) \<noteq> 0"
    by code_simp
  have d: "vio_open unparsable_extern new_file_url write_flags example_world
      = (None, example_world)"
    by (simp add: vio_open_def unparsable_extern_def)
  have e: "snd (x_ne_simple_propfind missing_parent_extern
          (x_cleanPath missing_parent_extern (x_c_dirname missing_parent_extern new_file_url)))
     \<noteq> NE_OK" by code_simp
  have f: "x_cleanPath missing_parent_extern new_file_url = Some ''/dav/new.txt''"
    by code_simp
  have g: "fst (vio_open missing_parent_extern new_file_url write_flags stale_cache_world)
      \<noteq> None" by code_simp
  have h: "w_errno (snd (vio_open missing_parent_extern new_file_url write_flags
      stale_cache_world)) = NOERR" by code_simp
  have i: "w_trace (snd (vio_open missing_parent_extern new_file_url write_flags
      stale_cache_world)) = [Ev_mkstemp ''/tmp/csync.a1b2c3'', Ev_begin_request ''/dav/new.txt'']"
    by code_simp
  have j: "w_files (snd (vio_open missing_parent_extern new_file_url write_flags
      stale_cache_world)) = {''/tmp/csync.a1b2c3''}"
    by code_simp
  from a b c d e f g h i j show ?thesis by (simp add: example_world_def)
qed

text \<open>
  The read branch: the GET goes to the URL composed of the scheme and the host
  of the session and the cleaned path.
\<close>

lemma open_read_get_url:
  "w_trace (snd (vio_open example_extern ''owncloud://example.org/dav/a.txt'' {} example_world)) =
     [Ev_mkstemp ''/tmp/csync.a1b2c3'', Ev_get ''http://example.org/dav/a.txt'', Ev_close 3]"
  by code_simp

subsection \<open>close\<close>

text \<open>
  C4. A handle opened for writing, whose request the server answers with 403:
  the dispatch itself returns \<open>NE_OK\<close>, the status class is 4, and \<open>_close\<close>
  returns 0 with \<open>errno\<close> untouched.
\<close>

theorem close_put_403_returns_success:
  "\<exists>w'. vio_close forbidden_extern (Some example_put_handle)
          example_put_world = Some (0, w') \<and>
        w_errno w' = NOERR \<and>
        x_ne_get_status_klass forbidden_extern (tc_req example_put_handle) = 4"
  by (simp add: vio_close_def forbidden_extern_def example_extern_def example_put_handle_def
      example_world_def example_put_world_def emit_def Let_def NE_defs)

text \<open>
  The same for every environment: once the dispatch returns \<open>NE_OK\<close>, the status
  class has no influence on what \<open>_close\<close> returns; and \<open>_close\<close> never writes
  \<open>errno\<close>.
\<close>

lemma close_put_ignores_status:
  "vio_close (X\<lparr>x_ne_get_status_klass := k\<rparr>) fhandle w = vio_close X fhandle w"
  by (simp add: vio_close_def Let_def split: option.split)

lemma close_keeps_errno:
  "vio_close X fhandle w = Some (ret, w') \<Longrightarrow> w_errno w' = w_errno w"
  by (auto simp add: vio_close_def emit_def Let_def split: option.splits if_splits)

text \<open>
  C5. For every handle, whatever its method and whatever the system calls and
  the request return, \<open>_close\<close> returns, the name of the temporary file is not in
  the local storage afterwards, and the last two calls are the \<open>unlink\<close> of that
  name and then the release of the handle.
\<close>

theorem close_removes_temp_file:
  "\<exists>ret w' evs. vio_close X (Some h) w = Some (ret, w') \<and>
     tc_tmpFileName h \<notin> w_files w' \<and>
     w_trace w' = w_trace w @ evs @ [Ev_unlink (tc_tmpFileName h), Ev_free_handle] \<and>
     Ev_free_handle \<notin> set evs"
  by (auto simp add: vio_close_def emit_def Let_def split: prod.splits if_splits)

subsection \<open>unlink\<close>

text \<open>\<open>dav_connect\<close> returns 0 or a negative number.\<close>

lemma dav_connect_rc: "fst (dav_connect X u w) \<le> 0"
  by (simp add: dav_connect_def Let_def case_prod_beta)


text \<open>
  C10, as the code has it. \<open>_unlink\<close> returns 0 for every URI, in every
  environment and every world. What it leaves behind: \<open>errno = EINVAL\<close> and
  nothing else when \<open>_cleanPath\<close> fails; \<open>errno = EINVAL\<close> on the world of
  \<open>dav_connect\<close> when connecting fails; otherwise one DELETE, and when that
  fails \<open>errno\<close> is the translation of its result code by \<open>ne_error_to_errno\<close>,
  which for \<open>NE_ERROR\<close> is 0; when the DELETE succeeds \<open>errno\<close> is not written.
\<close>

theorem unlink_result:
  "fst (vio_unlink X uri w) = 0 \<and>
   (x_cleanPath X uri = None \<longrightarrow> snd (vio_unlink X uri w) = w\<lparr>w_errno := EINVAL\<rparr>) \<and>
   (x_cleanPath X uri \<noteq> None \<and> fst (dav_connect X uri w) < 0 \<longrightarrow>
      snd (vio_unlink X uri w) = (snd (dav_connect X uri w))\<lparr>w_errno := EINVAL\<rparr>) \<and>
   (x_cleanPath X uri \<noteq> None \<and> fst (dav_connect X uri w) = 0 \<and>
    x_ne_delete X (x_cleanPath X uri) \<noteq> NE_OK \<longrightarrow>
      snd (vio_unlink X uri w) =
        (emit (Ev_delete (x_cleanPath X uri)) (snd (dav_connect X uri w)))
          \<lparr>w_errno := ne_error_to_errno (x_ne_delete X (x_cleanPath X uri))\<rparr>) \<and>
   (x_cleanPath X uri \<noteq> None \<and> fst (dav_connect X uri w) = 0 \<and>
    x_ne_delete X (x_cleanPath X uri) = NE_ERROR \<longrightarrow>
      w_errno (snd (vio_unlink X uri w)) = NOERR) \<and>
   (x_cleanPath X uri \<noteq> None \<and> fst (dav_connect X uri w) = 0 \<and>
    x_ne_delete X (x_cleanPath X uri) = NE_OK \<longrightarrow>
      snd (vio_unlink X uri w) = emit (Ev_delete (x_cleanPath X uri)) (snd (dav_connect X uri w))) \<and>
   fst (dav_connect X uri w) \<le> 0"
proof -
  have z: "fst (vio_unlink X uri w) = 0"
    by (simp add: vio_unlink_def Let_def case_prod_beta)
  have a: "x_cleanPath X uri = None \<Longrightarrow> snd (vio_unlink X uri w) = w\<lparr>w_errno := EINVAL\<rparr>"
    by (simp add: vio_unlink_def Let_def NE_defs)
  have b: "x_cleanPath X uri \<noteq> None \<Longrightarrow> fst (dav_connect X uri w) < 0 \<Longrightarrow>
      snd (vio_unlink X uri w) = (snd (dav_connect X uri w))\<lparr>w_errno := EINVAL\<rparr>"
    by (cases "x_cleanPath X uri") (simp_all add: vio_unlink_def Let_def NE_defs case_prod_beta)
  have c: "x_cleanPath X uri \<noteq> None \<Longrightarrow> fst (dav_connect X uri w) = 0 \<Longrightarrow>
      x_ne_delete X (x_cleanPath X uri) \<noteq> NE_OK \<Longrightarrow>
      snd (vio_unlink X uri w) =
        (emit (Ev_delete (x_cleanPath X uri)) (snd (dav_connect X uri w)))
          \<lparr>w_errno := ne_error_to_errno (x_ne_delete X (x_cleanPath X uri))\<rparr>"
    by (cases "x_cleanPath X uri") (simp_all add: vio_unlink_def Let_def NE_defs case_prod_beta)
  have d: "x_cleanPath X uri \<noteq> None \<Longrightarrow> fst (dav_connect X uri w) = 0 \<Longrightarrow>
      x_ne_delete X (x_cleanPath X uri) = NE_ERROR \<Longrightarrow>
      w_errno (snd (vio_unlink X uri w)) = NOERR"
    by (cases "x_cleanPath X uri")
       (simp_all add: vio_unlink_def Let_def NE_defs case_prod_beta ne_error_to_errno_def)
  have e: "x_cleanPath X uri \<noteq> None \<Longrightarrow> fst (dav_connect X uri w) = 0 \<Longrightarrow>
      x_ne_delete X (x_cleanPath X uri) = NE_OK \<Longrightarrow>
      snd (vio_unlink X uri w) = emit (Ev_delete (x_cleanPath X uri)) (snd (dav_connect X uri w))"
    by (cases "x_cleanPath X uri") (simp_all add: vio_unlink_def Let_def NE_defs case_prod_beta)
  from z a b c d e dav_connect_rc [of X uri w] show ?thesis by blast
qed

theorem unlink_result_witness:
  "x_cleanPath unparsable_extern example_url = None \<and>
   w_errno (snd (vio_unlink unparsable_extern example_url example_world)) = EINVAL \<and>
   fst (dav_connect no_socket_extern example_url example_world) < 0 \<and>
   w_errno (snd (vio_unlink no_socket_extern example_url example_world)) = EINVAL \<and>
   x_ne_delete delete_connect_extern (x_cleanPath delete_connect_extern example_url) \<noteq> NE_OK \<and>
   w_errno (snd (vio_unlink delete_connect_extern example_url example_world)) = EAGAIN \<and>
   x_ne_delete delete_error_extern (x_cleanPath delete_error_extern example_url) = NE_ERROR \<and>
   w_errno (snd (vio_unlink delete_error_extern example_url example_world)) = NOERR \<and>
   x_ne_delete example_extern (x_cleanPath example_extern example_url) = NE_OK \<and>
   w_trace (snd (vio_unlink example_extern example_url example_world)) =
     [Ev_delete (Some ''/dav/'')] \<and>
   fst (vio_unlink example_extern example_url example_world) = 0"
proof -
  have a1: "x_cleanPath unparsable_extern example_url = None"
    by (simp add: unparsable_extern_def)
  have b1: "x_cleanPath no_socket_extern example_url \<noteq> None" by code_simp
  have b2: "fst (dav_connect no_socket_extern example_url example_world) < 0" by code_simp
  have c1: "x_cleanPath delete_connect_extern example_url \<noteq> None" by code_simp
  have c2: "fst (dav_connect delete_connect_extern example_url example_world) = 0" by code_simp
  have c3: "x_ne_delete delete_connect_extern (x_cleanPath delete_connect_extern example_url)
      \<noteq> NE_OK" by code_simp
  have c4: "ne_error_to_errno (x_ne_delete delete_connect_extern
      (x_cleanPath delete_connect_extern example_url)) = EAGAIN" by code_simp
  have d1: "x_cleanPath delete_error_extern example_url \<noteq> None" by code_simp
  have d2: "fst (dav_connect delete_error_extern example_url example_world) = 0" by code_simp
  have d3: "x_ne_delete delete_error_extern (x_cleanPath delete_error_extern example_url)
      = NE_ERROR" by code_simp
  have e1: "x_cleanPath example_extern example_url \<noteq> None" by code_simp
  have e2: "fst (dav_connect example_extern example_url example_world) = 0" by code_simp
  have e3: "x_ne_delete example_extern (x_cleanPath example_extern example_url) = NE_OK"
    by code_simp
  have e4: "w_trace (emit (Ev_delete (x_cleanPath example_extern example_url))
      (snd (dav_connect example_extern example_url example_world))) = [Ev_delete (Some ''/dav/'')]"
    by code_simp
  from unlink_result [of unparsable_extern example_url example_world] a1
  have ra: "w_errno (snd (vio_unlink unparsable_extern example_url example_world)) = EINVAL"
    by simp
  from unlink_result [of no_socket_extern example_url example_world] b1 b2
  have rb: "w_errno (snd (vio_unlink no_socket_extern example_url example_world)) = EINVAL"
    by simp
  from unlink_result [of delete_connect_extern example_url example_world] c1 c2 c3 c4
  have rc: "w_errno (snd (vio_unlink delete_connect_extern example_url example_world)) = EAGAIN"
    by simp
  from unlink_result [of delete_error_extern example_url example_world] d1 d2 d3
  have rd: "w_errno (snd (vio_unlink delete_error_extern example_url example_world)) = NOERR"
    by blast
  from unlink_result [of example_extern example_url example_world] e1 e2 e3 e4
  have re: "w_trace (snd (vio_unlink example_extern example_url example_world)) =
     [Ev_delete (Some ''/dav/'')] \<and> fst (vio_unlink example_extern example_url example_world) = 0"
    by simp
  from a1 ra b2 rb c3 rc d3 rd e3 re show ?thesis by blast
qed

text \<open>
  The claim as the specification words it (a failure shows in \<open>errno\<close>) fails
  for a DELETE that returns \<open>NE_ERROR\<close>: \<open>_unlink\<close> returns 0 and sets \<open>errno\<close> to
  0, so the failure shows on neither channel.
\<close>

theorem unlink_invisible_failure_counterexample:
  "x_ne_delete delete_error_extern (x_cleanPath delete_error_extern example_url) \<noteq> NE_OK \<and>
   fst (vio_unlink delete_error_extern example_url example_world) = 0 \<and>
   w_errno (snd (vio_unlink delete_error_extern example_url example_world)) = NOERR \<and>
   w_trace (snd (vio_unlink delete_error_extern example_url example_world)) =
     [Ev_delete (Some ''/dav/'')]"
  by code_simp

end
